theory Spec2Isabelle
  imports Main "HOL-Library.Sublist" "HOL-Library.List_Lexorder" "HOL-Library.Char_ord"
begin

section \<open>Strings and the path functions of Go's path/filepath (POSIX)\<close>

text \<open>
  QuickPackage is a Go program. Its strings are byte strings, modelled as \<open>string\<close>.
  The functions \<open>Clean\<close>, \<open>Join\<close>, \<open>Base\<close>, \<open>Dir\<close> and \<open>Rel\<close> belong to Go's standard
  library, not to the repository. They are modelled here for the separator \<open>/\<close> and
  without volume names, component by component, following the rules the library
  documents and implements: \<open>Clean\<close> drops empty and \<open>.\<close> elements, cancels an inner
  \<open>..\<close> against the element before it, drops a \<open>..\<close> that would climb above the root and
  yields \<open>.\<close> for an empty result.
\<close>

type_synonym path = string

definition sep :: char where
  "sep = CHR ''/''"

definition nl :: char where
  "nl = CHR 0x0A"

fun split_on :: "char \<Rightarrow> string \<Rightarrow> string list" where
  "split_on c [] = [[]]"
| "split_on c (x # xs) =
     (if x = c then [] # split_on c xs
      else (case split_on c xs of
              [] \<Rightarrow> [[x]]
            | w # ws \<Rightarrow> (x # w) # ws))"

fun join_sep :: "string list \<Rightarrow> string" where
  "join_sep [] = []"
| "join_sep [x] = x"
| "join_sep (x # y # ys) = x @ sep # join_sep (y # ys)"

definition HasPrefix :: "string \<Rightarrow> string \<Rightarrow> bool" where
  "HasPrefix s pre = (take (length pre) s = pre)"

definition rooted :: "path \<Rightarrow> bool" where
  "rooted p = (p \<noteq> [] \<and> hd p = sep)"

text \<open>One element of the path meets the stack of elements kept so far (top first).\<close>

definition clean_step :: "bool \<Rightarrow> string list \<Rightarrow> string \<Rightarrow> string list" where
  "clean_step r out c =
     (if c = [] \<or> c = ''.'' then out
      else if c = ''..'' then
        (case out of
           [] \<Rightarrow> if r then [] else [''..'']
         | t # ts \<Rightarrow> if t = ''..'' then ''..'' # t # ts else ts)
      else c # out)"

definition clean_comps :: "bool \<Rightarrow> string list \<Rightarrow> string list" where
  "clean_comps r cs = rev (foldl (clean_step r) [] cs)"

definition Clean :: "path \<Rightarrow> path" where
  "Clean p =
     (let out = clean_comps (rooted p) (split_on sep p)
      in if rooted p then sep # join_sep out
         else if out = [] then ''.'' else join_sep out)"

definition Join :: "string list \<Rightarrow> path" where
  "Join elems =
     (case dropWhile (\<lambda>e. e = []) elems of
        [] \<Rightarrow> []
      | e # es \<Rightarrow> Clean (join_sep (e # es)))"

definition Base :: "path \<Rightarrow> string" where
  "Base p =
     (if p = [] then ''.''
      else let q = dropWhile (\<lambda>c. c = sep) (rev p);
               r = rev (takeWhile (\<lambda>c. c \<noteq> sep) q)
           in if r = [] then [sep] else r)"

definition Dir :: "path \<Rightarrow> path" where
  "Dir p = Clean (rev (dropWhile (\<lambda>c. c \<noteq> sep) (rev p)))"

text \<open>
  \<open>Rel\<close> walks both cleaned paths element by element. The elements it sees are those
  ended or separated by \<open>/\<close>: a path that ends in the separator (only \<open>/\<close> itself, once
  cleaned) has no empty last element.
\<close>

definition rel_comps :: "path \<Rightarrow> string list" where
  "rel_comps p = (let cs = split_on sep p in if last cs = [] then butlast cs else cs)"

fun strip_common :: "string list \<Rightarrow> string list \<Rightarrow> string list \<times> string list" where
  "strip_common (b # bs) (t # ts) = (if b = t then strip_common bs ts else (b # bs, t # ts))"
| "strip_common bs ts = (bs, ts)"

definition Rel :: "path \<Rightarrow> path \<Rightarrow> path option" where
  "Rel basepath targpath =
     (let base = Clean basepath; targ = Clean targpath
      in if targ = base then Some ''.''
         else
           let base' = (if base = ''.'' then [] else base)
           in if rooted base' \<noteq> rooted targ then None
              else
                (case strip_common (rel_comps base') (rel_comps targ) of
                   (b, t) \<Rightarrow>
                     if b \<noteq> [] \<and> t \<noteq> [] \<and> hd b = ''..'' then None
                     else if b \<noteq> [] then Some (join_sep (replicate (length b) ''..'' @ t))
                     else Some (join_sep t)))"

section \<open>The configuration and the service unit (type.go)\<close>

record FileEntry =
  File :: string
  From :: string

record Config =
  AppName :: string
  BuildFiles :: "string list"
  InstallFiles :: "FileEntry list"
  BuildScript :: string
  InstallScript :: string
  UninstallScript :: string
  Systemd :: bool
  SystemdRunAsUser :: bool
  Exec :: string

record SystemdUnit =
  Name :: string
  RunAsUser :: bool
  ExecPath :: string

definition InstallPath :: path where
  "InstallPath = ''/opt/''"

definition GenerateDescription :: "SystemdUnit \<Rightarrow> string" where
  "GenerateDescription s =
     (if RunAsUser s then Name s @ '' service running as user %i''
      else Name s @ '' service'')"

definition GetUser :: "SystemdUnit \<Rightarrow> string" where
  "GetUser s = (if RunAsUser s then ''%i'' else ''root'')"

text \<open>The format string of \<open>GenerateFile\<close> is a sequence of lines, each ended by a newline.\<close>

definition unlines :: "string list \<Rightarrow> string" where
  "unlines ls = concat (map (\<lambda>l. l @ [nl]) ls)"

definition GenerateFile :: "SystemdUnit \<Rightarrow> string" where
  "GenerateFile s =
     (let description = GenerateDescription s;
          user = GetUser s;
          workingDirectory = Join [InstallPath, Name s]
      in unlines
           [''[Unit]'',
            ''Description='' @ description,
            ''After=network.target'',
            [],
            ''[Service]'',
            ''Type=simple'',
            ''ExecStart='' @ ExecPath s,
            ''WorkingDirectory='' @ workingDirectory,
            ''Restart=always'',
            ''User='' @ user,
            [],
            ''[Install]'',
            ''WantedBy=multi-user.target''])"

definition UnitName :: "SystemdUnit \<Rightarrow> string" where
  "UnitName s = (if RunAsUser s then Name s @ ''@'' else Name s)"

definition UnitPath :: "SystemdUnit \<Rightarrow> path" where
  "UnitPath s = ''/usr/lib/systemd/system/'' @ UnitName s @ ''.service''"

definition UnitNameWildcard :: "SystemdUnit \<Rightarrow> string" where
  "UnitNameWildcard s = (if RunAsUser s then UnitName s @ ''*'' else UnitName s)"

definition UnitFromConfig :: "Config \<Rightarrow> SystemdUnit" where
  "UnitFromConfig c = \<lparr>Name = AppName c, RunAsUser = SystemdRunAsUser c, ExecPath = Exec c\<rparr>"

definition GetBuildScript :: "Config \<Rightarrow> path" where
  "GetBuildScript c = ''.qp/'' @ BuildScript c"

definition GetInstallScript :: "Config \<Rightarrow> path" where
  "GetInstallScript c = ''.qp/'' @ InstallScript c"

definition GetUninstallScript :: "Config \<Rightarrow> path" where
  "GetUninstallScript c = ''.qp/'' @ UninstallScript c"

section \<open>The operating system, as the program sees it\<close>

text \<open>
  Every effect of the program goes through the operating system: the service manager
  and the scripts are external commands, the files are reached through \<open>os\<close> and the copy
  library. The program is modelled over an arbitrary operating system: a record of
  handlers over a world \<open>'w\<close>. A command answers \<open>True\<close> when it succeeds (exit status 0,
  or no error). Queries read the world and leave it as it is. The program's state is the
  world together with the trace of the effects it has issued, in order.
\<close>

datatype stat_reply = StatOk | StatNotExist | StatError

record 'w os =
  os_systemctl :: "string list \<Rightarrow> 'w \<Rightarrow> bool \<times> 'w"
  os_bash :: "path \<Rightarrow> path \<Rightarrow> 'w \<Rightarrow> bool \<times> 'w"
  os_stat :: "path \<Rightarrow> 'w \<Rightarrow> stat_reply"
  os_mkdir_all :: "path \<Rightarrow> 'w \<Rightarrow> bool \<times> 'w"
  os_mkdir_temp :: "path \<Rightarrow> string \<Rightarrow> 'w \<Rightarrow> path option \<times> 'w"
  os_copy :: "path \<Rightarrow> path \<Rightarrow> 'w \<Rightarrow> bool \<times> 'w"
  os_write_file :: "path \<Rightarrow> string \<Rightarrow> 'w \<Rightarrow> bool \<times> 'w"
  os_remove :: "path \<Rightarrow> 'w \<Rightarrow> bool \<times> 'w"
  os_remove_all :: "path \<Rightarrow> 'w \<Rightarrow> bool \<times> 'w"
  os_read_dir :: "path \<Rightarrow> 'w \<Rightarrow> string list option"
  os_glob :: "string \<Rightarrow> 'w \<Rightarrow> path list option"
  os_temp_dir :: "'w \<Rightarrow> path"
  os_sleep :: "'w \<Rightarrow> 'w"
  os_load_config :: "path \<Rightarrow> 'w \<Rightarrow> Config option"

datatype event =
    Systemctl "string list"
  | Bash path path
  | MkdirAll path
  | MkdirTemp path string
  | CpCopy path path
  | WriteFile path string
  | Remove path
  | RemoveAll path
  | Sleep

record 'w state =
  trace :: "event list"
  world :: 'w

definition effect :: "event \<Rightarrow> ('w \<Rightarrow> bool \<times> 'w) \<Rightarrow> 'w state \<Rightarrow> bool \<times> 'w state" where
  "effect e f s = (fst (f (world s)), \<lparr>trace = trace s @ [e], world = snd (f (world s))\<rparr>)"

definition systemctl :: "'w os \<Rightarrow> string list \<Rightarrow> 'w state \<Rightarrow> bool \<times> 'w state" where
  "systemctl os args = effect (Systemctl args) (os_systemctl os args)"

definition bash :: "'w os \<Rightarrow> path \<Rightarrow> path \<Rightarrow> 'w state \<Rightarrow> bool \<times> 'w state" where
  "bash os script dir = effect (Bash script dir) (os_bash os script dir)"

definition mkdirAll :: "'w os \<Rightarrow> path \<Rightarrow> 'w state \<Rightarrow> bool \<times> 'w state" where
  "mkdirAll os p = effect (MkdirAll p) (os_mkdir_all os p)"

definition cpCopy :: "'w os \<Rightarrow> path \<Rightarrow> path \<Rightarrow> 'w state \<Rightarrow> bool \<times> 'w state" where
  "cpCopy os src dst = effect (CpCopy src dst) (os_copy os src dst)"

definition writeFile :: "'w os \<Rightarrow> path \<Rightarrow> string \<Rightarrow> 'w state \<Rightarrow> bool \<times> 'w state" where
  "writeFile os p txt = effect (WriteFile p txt) (os_write_file os p txt)"

definition remove :: "'w os \<Rightarrow> path \<Rightarrow> 'w state \<Rightarrow> bool \<times> 'w state" where
  "remove os p = effect (Remove p) (os_remove os p)"

definition removeAllPath :: "'w os \<Rightarrow> path \<Rightarrow> 'w state \<Rightarrow> bool \<times> 'w state" where
  "removeAllPath os p = effect (RemoveAll p) (os_remove_all os p)"

definition mkdirTemp :: "'w os \<Rightarrow> path \<Rightarrow> string \<Rightarrow> 'w state \<Rightarrow> path option \<times> 'w state" where
  "mkdirTemp os dir pat s =
     (fst (os_mkdir_temp os dir pat (world s)),
      \<lparr>trace = trace s @ [MkdirTemp dir pat], world = snd (os_mkdir_temp os dir pat (world s))\<rparr>)"

definition sleep :: "'w os \<Rightarrow> 'w state \<Rightarrow> 'w state" where
  "sleep os s = \<lparr>trace = trace s @ [Sleep], world = os_sleep os (world s)\<rparr>"

definition exists :: "'w os \<Rightarrow> path \<Rightarrow> 'w state \<Rightarrow> bool" where
  "exists os p s = (os_stat os p (world s) = StatOk)"

section \<open>Fatal exits and outcomes\<close>

text \<open>
  \<open>log.Fatal\<close> and \<open>log.Fatalf\<close> print a message and exit with status 1: the stage ends
  there. One constructor stands for each call site. \<open>Polling\<close> is the poll loop of
  \<open>doInstall\<close> still waiting when its fuel is used up; the loop has no bound of its own.
\<close>

datatype copy_error = RelFailed path | MkdirFailed path | CopyFailed path path

datatype unit_error = UnitWriteFailed | UnitCommandFailed "string list"

datatype find_error = ReadDirFailed | BuildDirNotFound

datatype fatal =
    Usage
  | UnknownAction string
  | LoadConfigFailed
  | AppNameRequired
  | InstallFilesRequired
  | ExecRequired
  | BuildTempDirFailed
  | InvalidGlob string
  | CopyErr copy_error
  | BuildScriptCopyFailed string
  | BuildScriptFailed
  | StopFailed string
  | InstallDirFailed
  | BuildDirUnknown string
  | UnknownFrom string string
  | SourceMissing path
  | InstallScriptCopyFailed string
  | ScriptFailed path
  | UnitInstallFailed unit_error
  | StartFailed string
  | UninstallScriptCopyFailed string

datatype outcome = Done | Fatal fatal | Polling

type_synonym 'w stage = "'w state \<Rightarrow> outcome \<times> 'w state"

definition andThen :: "'w stage \<Rightarrow> 'w stage \<Rightarrow> 'w stage" where
  "andThen m k s = (case m s of (Done, s') \<Rightarrow> k s' | (r, s') \<Rightarrow> (r, s'))"

section \<open>Validation, build, install and uninstall\<close>

definition validateConfig :: "Config \<Rightarrow> fatal option" where
  "validateConfig cfg =
     (if AppName cfg = [] then Some AppNameRequired
      else if length (InstallFiles cfg) = 0 then Some InstallFilesRequired
      else if Systemd cfg \<and> Exec cfg = [] then Some ExecRequired
      else None)"

text \<open>
  \<open>copyPreserveRelBase\<close> first computes the destination: the source's path relative to the
  base, re-rooted beneath the destination root; a source that is the base itself keeps its
  base name. It then creates the parent directories and copies.
\<close>

definition copyDest :: "path \<Rightarrow> path \<Rightarrow> path \<Rightarrow> path option" where
  "copyDest src baseDir dstRoot =
     (case Rel baseDir src of
        None \<Rightarrow> None
      | Some relPath \<Rightarrow>
          Some (Join [dstRoot, if relPath = ''.'' then Base src else relPath]))"

definition copyPreserveRelBase ::
  "'w os \<Rightarrow> path \<Rightarrow> path \<Rightarrow> path \<Rightarrow> 'w state \<Rightarrow> copy_error option \<times> 'w state" where
  "copyPreserveRelBase os src baseDir dstRoot s =
     (case copyDest src baseDir dstRoot of
        None \<Rightarrow> (Some (RelFailed src), s)
      | Some dst \<Rightarrow>
          (case mkdirAll os (Dir dst) s of
             (False, s1) \<Rightarrow> (Some (MkdirFailed dst), s1)
           | (True, s1) \<Rightarrow>
               (case cpCopy os src dst s1 of
                  (False, s2) \<Rightarrow> (Some (CopyFailed src dst), s2)
                | (True, s2) \<Rightarrow> (None, s2))))"

definition runScript :: "'w os \<Rightarrow> path \<Rightarrow> path \<Rightarrow> 'w stage" where
  "runScript os scriptPath workDir s =
     (case bash os scriptPath workDir s of
        (False, s1) \<Rightarrow> (Fatal (ScriptFailed scriptPath), s1)
      | (True, s1) \<Rightarrow> (Done, s1))"

subsection \<open>doBuild\<close>

fun buildMatches :: "'w os \<Rightarrow> path \<Rightarrow> path list \<Rightarrow> 'w stage" where
  "buildMatches os buildDir [] s = (Done, s)"
| "buildMatches os buildDir (src # rest) s =
     (case copyPreserveRelBase os src ''.'' buildDir s of
        (Some err, s1) \<Rightarrow> (Fatal (CopyErr err), s1)
      | (None, s1) \<Rightarrow> buildMatches os buildDir rest s1)"

fun buildPatterns :: "'w os \<Rightarrow> path \<Rightarrow> string list \<Rightarrow> 'w stage" where
  "buildPatterns os buildDir [] s = (Done, s)"
| "buildPatterns os buildDir (pattern # rest) s =
     (case os_glob os pattern (world s) of
        None \<Rightarrow> (Fatal (InvalidGlob pattern), s)
      | Some matches \<Rightarrow>
          andThen (buildMatches os buildDir matches) (buildPatterns os buildDir rest) s)"

definition buildScriptStep :: "'w os \<Rightarrow> Config \<Rightarrow> path \<Rightarrow> 'w stage" where
  "buildScriptStep os cfg buildDir s =
     (if BuildScript cfg \<noteq> [] then
        let scriptPath = Join [buildDir, Base (BuildScript cfg)];
            staged =
              (if os_stat os scriptPath (world s) = StatNotExist
               then cpCopy os (GetBuildScript cfg) scriptPath s
               else (True, s))
        in if \<not> fst staged then (Fatal (BuildScriptCopyFailed (BuildScript cfg)), snd staged)
           else (case bash os scriptPath buildDir (snd staged) of
                   (False, s2) \<Rightarrow> (Fatal BuildScriptFailed, s2)
                 | (True, s2) \<Rightarrow> (Done, s2))
      else (Done, s))"

definition stagingPrefix :: "string \<Rightarrow> string" where
  "stagingPrefix appName = ''qp_build_'' @ appName @ ''_''"

definition doBuild :: "'w os \<Rightarrow> Config \<Rightarrow> 'w stage" where
  "doBuild os cfg s =
     (case mkdirTemp os ''/tmp'' (stagingPrefix (AppName cfg)) s of
        (None, s1) \<Rightarrow> (Fatal BuildTempDirFailed, s1)
      | (Some buildDir, s1) \<Rightarrow>
          andThen (buildPatterns os buildDir (BuildFiles cfg))
                  (buildScriptStep os cfg buildDir) s1)"

subsection \<open>doInstall\<close>

definition findTempBuildDir :: "'w os \<Rightarrow> string \<Rightarrow> 'w \<Rightarrow> path \<times> find_error option" where
  "findTempBuildDir os appName w =
     (let tmp = os_temp_dir os w
      in case os_read_dir os tmp w of
           None \<Rightarrow> ([], Some ReadDirFailed)
         | Some entries \<Rightarrow>
             (case find (\<lambda>e. HasPrefix e (stagingPrefix appName)) entries of
                Some e \<Rightarrow> (Join [tmp, e], None)
              | None \<Rightarrow> ([], Some BuildDirNotFound)))"

text \<open>The poll loop that waits for the service to stop: one unit of fuel per poll.\<close>

fun waitStopped :: "nat \<Rightarrow> 'w os \<Rightarrow> string \<Rightarrow> 'w stage" where
  "waitStopped 0 os unit s = (Polling, s)"
| "waitStopped (Suc fuel) os unit s =
     (case systemctl os [''is-active'', ''--quiet'', unit] s of
        (False, s1) \<Rightarrow> (Done, s1)
      | (True, s1) \<Rightarrow> waitStopped fuel os unit (sleep os s1))"

definition stopActive :: "nat \<Rightarrow> 'w os \<Rightarrow> Config \<Rightarrow> 'w stage" where
  "stopActive fuel os cfg s =
     (let unit = UnitFromConfig cfg
      in if Systemd cfg then
           (case systemctl os [''is-active'', ''--quiet'', UnitNameWildcard unit] s of
              (True, s1) \<Rightarrow>
                (case systemctl os [''stop'', UnitNameWildcard unit] s1 of
                   (False, s2) \<Rightarrow> (Fatal (StopFailed (UnitNameWildcard unit)), s2)
                 | (True, s2) \<Rightarrow> waitStopped fuel os (UnitNameWildcard unit) s2)
            | (False, s1) \<Rightarrow> (Done, s1))
         else (Done, s))"

definition createInstallDir :: "'w os \<Rightarrow> path \<Rightarrow> 'w stage" where
  "createInstallDir os installDir s =
     (case mkdirAll os installDir s of
        (False, s1) \<Rightarrow> (Fatal InstallDirFailed, s1)
      | (True, s1) \<Rightarrow> (Done, s1))"

text \<open>The source path and base directory of an install-file entry, by its provenance.\<close>

definition entrySource :: "path \<Rightarrow> FileEntry \<Rightarrow> fatal + (path \<times> path)" where
  "entrySource buildDir entry =
     (if From entry = ''cwd'' then Inr (File entry, ''.'')
      else if From entry = ''build'' then
        (if buildDir = [] then Inl (BuildDirUnknown (File entry))
         else Inr (Join [buildDir, File entry], buildDir))
      else Inl (UnknownFrom (From entry) (File entry)))"

fun installEntries :: "'w os \<Rightarrow> path \<Rightarrow> path \<Rightarrow> FileEntry list \<Rightarrow> 'w stage" where
  "installEntries os installDir buildDir [] s = (Done, s)"
| "installEntries os installDir buildDir (entry # rest) s =
     (case entrySource buildDir entry of
        Inl f \<Rightarrow> (Fatal f, s)
      | Inr (srcPath, baseDir) \<Rightarrow>
          if \<not> exists os srcPath s then (Fatal (SourceMissing srcPath), s)
          else
            (case copyPreserveRelBase os srcPath baseDir installDir s of
               (Some err, s1) \<Rightarrow> (Fatal (CopyErr err), s1)
             | (None, s1) \<Rightarrow> installEntries os installDir buildDir rest s1))"

definition installScriptStep :: "'w os \<Rightarrow> Config \<Rightarrow> path \<Rightarrow> 'w stage" where
  "installScriptStep os cfg installDir s =
     (if InstallScript cfg \<noteq> [] then
        let scriptPath = Join [installDir, Base (InstallScript cfg)];
            staged =
              (if \<not> exists os scriptPath s
               then cpCopy os (GetInstallScript cfg) scriptPath s
               else (True, s))
        in if \<not> fst staged then (Fatal (InstallScriptCopyFailed (InstallScript cfg)), snd staged)
           else runScript os scriptPath installDir (snd staged)
      else (Done, s))"

fun runCommands :: "'w os \<Rightarrow> string list list \<Rightarrow> 'w state \<Rightarrow> unit_error option \<times> 'w state" where
  "runCommands os [] s = (None, s)"
| "runCommands os (args # rest) s =
     (case systemctl os (tl args) s of
        (False, s1) \<Rightarrow> (Some (UnitCommandFailed args), s1)
      | (True, s1) \<Rightarrow> runCommands os rest s1)"

definition installSystemdUnit :: "'w os \<Rightarrow> Config \<Rightarrow> 'w state \<Rightarrow> unit_error option \<times> 'w state" where
  "installSystemdUnit os cfg s =
     (let unit = UnitFromConfig cfg
      in case writeFile os (UnitPath unit) (GenerateFile unit) s of
           (False, s1) \<Rightarrow> (Some UnitWriteFailed, s1)
         | (True, s1) \<Rightarrow>
             runCommands os
               [[''systemctl'', ''daemon-reload''],
                [''systemctl'', ''enable'', ''--now'', UnitNameWildcard unit]] s1)"

definition startService :: "'w os \<Rightarrow> Config \<Rightarrow> 'w stage" where
  "startService os cfg s =
     (let unit = UnitFromConfig cfg
      in if Systemd cfg then
           (case installSystemdUnit os cfg s of
              (Some err, s1) \<Rightarrow> (Fatal (UnitInstallFailed err), s1)
            | (None, s1) \<Rightarrow>
                (case systemctl os [''start'', UnitNameWildcard unit] s1 of
                   (False, s2) \<Rightarrow> (Fatal (StartFailed (UnitNameWildcard unit)), s2)
                 | (True, s2) \<Rightarrow> (Done, s2)))
         else (Done, s))"

fun removeStaging :: "'w os \<Rightarrow> path \<Rightarrow> string \<Rightarrow> string list \<Rightarrow> 'w state \<Rightarrow> 'w state" where
  "removeStaging os tmp pre [] s = s"
| "removeStaging os tmp pre (e # rest) s =
     (if HasPrefix e pre
      then removeStaging os tmp pre rest (snd (removeAllPath os (Join [tmp, e]) s))
      else removeStaging os tmp pre rest s)"

definition cleanupStaging :: "'w os \<Rightarrow> Config \<Rightarrow> 'w stage" where
  "cleanupStaging os cfg s =
     (let tmp = os_temp_dir os (world s)
      in case os_read_dir os tmp (world s) of
           None \<Rightarrow> (Done, s)
         | Some entries \<Rightarrow>
             (Done, removeStaging os tmp (stagingPrefix (AppName cfg)) entries s))"

definition doInstall :: "nat \<Rightarrow> 'w os \<Rightarrow> Config \<Rightarrow> 'w stage" where
  "doInstall fuel os cfg =
     (let installDir = Join [InstallPath, AppName cfg]
      in andThen (stopActive fuel os cfg)
        (andThen (createInstallDir os installDir)
        (andThen (\<lambda>s. installEntries os installDir
                         (fst (findTempBuildDir os (AppName cfg) (world s)))
                         (InstallFiles cfg) s)
        (andThen (installScriptStep os cfg installDir)
        (andThen (startService os cfg)
                 (cleanupStaging os cfg))))))"

subsection \<open>doUninstall\<close>

definition teardownService :: "'w os \<Rightarrow> Config \<Rightarrow> 'w state \<Rightarrow> 'w state" where
  "teardownService os cfg s =
     (if Systemd cfg then
        let unit = UnitFromConfig cfg;
            s1 = snd (systemctl os [''stop'', UnitNameWildcard unit] s);
            s2 = snd (systemctl os [''disable'', UnitNameWildcard unit] s1);
            s3 = snd (remove os (UnitPath unit) s2)
        in snd (systemctl os [''daemon-reload''] s3)
      else s)"

definition uninstallScriptStep :: "'w os \<Rightarrow> Config \<Rightarrow> path \<Rightarrow> 'w stage" where
  "uninstallScriptStep os cfg installDir s =
     (if UninstallScript cfg \<noteq> [] then
        let scriptPath = Join [installDir, Base (UninstallScript cfg)];
            staged =
              (if \<not> exists os scriptPath s
               then cpCopy os (GetUninstallScript cfg) scriptPath s
               else (True, s))
        in if \<not> fst staged
           then (Fatal (UninstallScriptCopyFailed (UninstallScript cfg)), snd staged)
           else runScript os scriptPath installDir (snd staged)
      else (Done, s))"

definition doUninstall :: "'w os \<Rightarrow> Config \<Rightarrow> 'w stage" where
  "doUninstall os cfg s =
     (let installDir = Join [InstallPath, AppName cfg]
      in andThen (uninstallScriptStep os cfg installDir)
                 (\<lambda>s'. (Done, snd (removeAllPath os installDir s')))
                 (teardownService os cfg s))"

subsection \<open>main\<close>

fun configPathOf :: "string list \<Rightarrow> path \<Rightarrow> path" where
  "configPathOf (a # b # rest) configPath =
     (if a = ''--config'' then configPathOf rest b else configPathOf (b # rest) configPath)"
| "configPathOf args configPath = configPath"

definition runAction :: "nat \<Rightarrow> 'w os \<Rightarrow> string \<Rightarrow> Config \<Rightarrow> 'w stage" where
  "runAction fuel os action cfg =
     (if action = ''build'' then doBuild os cfg
      else if action = ''install'' then andThen (doBuild os cfg) (doInstall fuel os cfg)
      else if action = ''uninstall'' then doUninstall os cfg
      else (\<lambda>s. (Done, s)))"

definition main :: "nat \<Rightarrow> 'w os \<Rightarrow> string list \<Rightarrow> 'w stage" where
  "main fuel os osArgs s =
     (if length osArgs < 2 then (Fatal Usage, s)
      else
        let action = osArgs ! 1;
            args = drop 2 osArgs;
            configPath = configPathOf args ''.qp/config.json''
        in if action \<noteq> ''build'' \<and> action \<noteq> ''install'' \<and> action \<noteq> ''uninstall''
           then (Fatal (UnknownAction action), s)
           else
             (case os_load_config os configPath (world s) of
                None \<Rightarrow> (Fatal LoadConfigFailed, s)
              | Some cfg \<Rightarrow>
                  (case validateConfig cfg of
                     Some f \<Rightarrow> (Fatal f, s)
                   | None \<Rightarrow> runAction fuel os action cfg s)))"

section \<open>A reference operating system\<close>

text \<open>
  One concrete operating system, used to run the program on concrete inputs. Its world
  holds the regular files (absolute, cleaned path and bytes), the directories, the
  working directory, the temp location, the random suffixes \<open>MkdirTemp\<close> will draw,
  the state of the managed service and the configuration the config file decodes to.
  Directory entries are enumerated sorted by name, as \<open>os.ReadDir\<close> does. The behaviour of
  \<open>/bin/bash\<close> on a script is a parameter.
\<close>

datatype service = Inactive | Active | Stopping nat

record sim =
  sim_files :: "(path \<times> string) list"
  sim_dirs :: "path list"
  sim_cwd :: path
  sim_tmp :: path
  sim_fresh :: "string list"
  sim_service :: service
  sim_stop_ok :: bool
  sim_linger :: nat
  sim_config :: "Config option"

definition sim_abs :: "sim \<Rightarrow> path \<Rightarrow> path" where
  "sim_abs w p = (if rooted p then Clean p else Join [sim_cwd w, p])"

definition beneath :: "path \<Rightarrow> path \<Rightarrow> bool" where
  "beneath d p = (p = d \<or> HasPrefix p (if d = [sep] then d else d @ [sep]))"

definition sim_is_file :: "sim \<Rightarrow> path \<Rightarrow> bool" where
  "sim_is_file w p = (map_of (sim_files w) p \<noteq> None)"

definition sim_is_dir :: "sim \<Rightarrow> path \<Rightarrow> bool" where
  "sim_is_dir w p =
     (\<not> sim_is_file w p \<and>
      (p \<in> set (sim_dirs w) \<or> list_ex (beneath p) (map fst (sim_files w) @ sim_dirs w)))"

definition sim_stat :: "path \<Rightarrow> sim \<Rightarrow> stat_reply" where
  "sim_stat p w =
     (if p = [] then StatNotExist
      else if sim_is_file w (sim_abs w p) \<or> sim_is_dir w (sim_abs w p) then StatOk
      else StatNotExist)"

fun put :: "path \<Rightarrow> string \<Rightarrow> (path \<times> string) list \<Rightarrow> (path \<times> string) list" where
  "put k v [] = [(k, v)]"
| "put k v ((k', v') # kvs) = (if k = k' then (k, v) # kvs else (k', v') # put k v kvs)"

definition sim_mkdir_all :: "path \<Rightarrow> sim \<Rightarrow> bool \<times> sim" where
  "sim_mkdir_all p w =
     (let d = sim_abs w p
      in if sim_is_file w d then (False, w)
         else (True, w\<lparr>sim_dirs := (if d \<in> set (sim_dirs w) then sim_dirs w else sim_dirs w @ [d])\<rparr>))"

definition sim_mkdir_temp :: "path \<Rightarrow> string \<Rightarrow> sim \<Rightarrow> path option \<times> sim" where
  "sim_mkdir_temp dir pat w =
     (case sim_fresh w of
        [] \<Rightarrow> (None, w)
      | x # xs \<Rightarrow>
          let d = Join [dir, pat @ x]
          in if sim_is_file w (sim_abs w d) \<or> sim_is_dir w (sim_abs w d)
             then (None, w\<lparr>sim_fresh := xs\<rparr>)
             else (Some d, w\<lparr>sim_fresh := xs, sim_dirs := sim_dirs w @ [sim_abs w d]\<rparr>))"

text \<open>Copying a file writes its bytes at the destination; copying a directory copies
  every file below it to the same place below the destination.\<close>

definition sim_copy :: "path \<Rightarrow> path \<Rightarrow> sim \<Rightarrow> bool \<times> sim" where
  "sim_copy src dst w =
     (let a = sim_abs w src; b = sim_abs w dst
      in case map_of (sim_files w) a of
           Some bytes \<Rightarrow>
             if sim_is_dir w b then (False, w)
             else (True, w\<lparr>sim_files := put b bytes (sim_files w)\<rparr>)
         | None \<Rightarrow>
             if sim_is_dir w a \<and> \<not> sim_is_file w b then
               (True,
                w\<lparr>sim_files :=
                     foldl (\<lambda>fs (k, v). put (b @ drop (length a) k) v fs) (sim_files w)
                       (filter (\<lambda>(k, v). beneath a k) (sim_files w)),
                   sim_dirs := (if b \<in> set (sim_dirs w) then sim_dirs w else sim_dirs w @ [b])\<rparr>)
             else (False, w))"

definition sim_write_file :: "path \<Rightarrow> string \<Rightarrow> sim \<Rightarrow> bool \<times> sim" where
  "sim_write_file p txt w =
     (if sim_is_dir w (sim_abs w p) then (False, w)
      else (True, w\<lparr>sim_files := put (sim_abs w p) txt (sim_files w)\<rparr>))"

definition sim_remove :: "path \<Rightarrow> sim \<Rightarrow> bool \<times> sim" where
  "sim_remove p w =
     (if sim_is_file w (sim_abs w p)
      then (True, w\<lparr>sim_files := filter (\<lambda>(k, v). k \<noteq> sim_abs w p) (sim_files w)\<rparr>)
      else (False, w))"

definition sim_remove_all :: "path \<Rightarrow> sim \<Rightarrow> bool \<times> sim" where
  "sim_remove_all p w =
     (True, w\<lparr>sim_files := filter (\<lambda>(k, v). \<not> beneath (sim_abs w p) k) (sim_files w),
              sim_dirs := filter (\<lambda>d. \<not> beneath (sim_abs w p) d) (sim_dirs w)\<rparr>)"

definition child_name :: "path \<Rightarrow> path \<Rightarrow> string" where
  "child_name d p =
     takeWhile (\<lambda>c. c \<noteq> sep) (drop (length (if d = [sep] then d else d @ [sep])) p)"

definition sim_read_dir :: "path \<Rightarrow> sim \<Rightarrow> string list option" where
  "sim_read_dir p w =
     (let d = sim_abs w p
      in if sim_is_dir w d
         then Some (sort (remdups (map (child_name d)
                 (filter (\<lambda>q. beneath d q \<and> q \<noteq> d) (sim_dirs w @ map fst (sim_files w))))))
         else None)"

definition sim_glob :: "string \<Rightarrow> sim \<Rightarrow> path list option" where
  "sim_glob pattern w = Some (if sim_stat pattern w = StatOk then [pattern] else [])"

definition sim_systemctl :: "string list \<Rightarrow> sim \<Rightarrow> bool \<times> sim" where
  "sim_systemctl args w =
     (if args \<noteq> [] \<and> hd args = ''is-active'' then
        (case sim_service w of
           Inactive \<Rightarrow> (False, w)
         | Active \<Rightarrow> (True, w)
         | Stopping 0 \<Rightarrow> (False, w\<lparr>sim_service := Inactive\<rparr>)
         | Stopping (Suc n) \<Rightarrow> (True, w))
      else if args \<noteq> [] \<and> hd args = ''stop'' then
        (if \<not> sim_stop_ok w then (False, w)
         else (True, w\<lparr>sim_service :=
                 (case sim_service w of Active \<Rightarrow> Stopping (sim_linger w) | sv \<Rightarrow> sv)\<rparr>))
      else if args \<noteq> [] \<and> (hd args = ''start'' \<or> hd args = ''enable'') then
        (True, w\<lparr>sim_service := Active\<rparr>)
      else (True, w))"

definition sim_sleep :: "sim \<Rightarrow> sim" where
  "sim_sleep w =
     (case sim_service w of
        Stopping (Suc n) \<Rightarrow> w\<lparr>sim_service := Stopping n\<rparr>
      | sv \<Rightarrow> w)"

definition sim_os :: "(path \<Rightarrow> path \<Rightarrow> sim \<Rightarrow> bool \<times> sim) \<Rightarrow> sim os" where
  "sim_os script =
     \<lparr>os_systemctl = sim_systemctl,
      os_bash = script,
      os_stat = sim_stat,
      os_mkdir_all = sim_mkdir_all,
      os_mkdir_temp = sim_mkdir_temp,
      os_copy = sim_copy,
      os_write_file = sim_write_file,
      os_remove = sim_remove,
      os_remove_all = sim_remove_all,
      os_read_dir = sim_read_dir,
      os_glob = sim_glob,
      os_temp_dir = sim_tmp,
      os_sleep = sim_sleep,
      os_load_config = (\<lambda>p w. sim_config w)\<rparr>"

text \<open>Three scripts: one that does nothing, one that appends a line to the file
  \<open>install.log\<close> of its working directory, and one that exits with a non-zero status.\<close>

definition script_noop :: "path \<Rightarrow> path \<Rightarrow> sim \<Rightarrow> bool \<times> sim" where
  "script_noop script dir w = (sim_is_file w (sim_abs w script), w)"

definition script_log :: "path \<Rightarrow> path \<Rightarrow> sim \<Rightarrow> bool \<times> sim" where
  "script_log script dir w =
     (if sim_is_file w (sim_abs w script) then
        let logfile = Join [sim_abs w dir, ''install.log''];
            old = (case map_of (sim_files w) logfile of None \<Rightarrow> [] | Some bytes \<Rightarrow> bytes)
        in (True, w\<lparr>sim_files := put logfile (old @ ''installed'' @ [nl]) (sim_files w)\<rparr>)
      else (False, w))"

definition script_fail :: "path \<Rightarrow> path \<Rightarrow> sim \<Rightarrow> bool \<times> sim" where
  "script_fail script dir w = (False, w)"

definition start :: "sim \<Rightarrow> sim state" where
  "start w = \<lparr>trace = [], world = w\<rparr>"

section \<open>Observing a run\<close>

text \<open>The events a stage has issued between two states, and what an event does.\<close>

definition issued :: "'w state \<Rightarrow> 'w state \<Rightarrow> event list" where
  "issued s s' = drop (length (trace s)) (trace s')"

text \<open>\<open>extends P s s'\<close>: the trace of \<open>s'\<close> is the trace of \<open>s\<close> followed by events that
  all satisfy \<open>P\<close>.\<close>

definition extends :: "(event \<Rightarrow> bool) \<Rightarrow> 'w state \<Rightarrow> 'w state \<Rightarrow> bool" where
  "extends P s s' = (\<exists>evs. trace s' = trace s @ evs \<and> list_all P evs)"

text \<open>
  The phases of an install: 0 is asking the service manager whether the unit is active,
  stopping it and waiting; 1 is changing files and running a script; 2 is writing the
  unit and reloading, enabling and starting the service; 3 is removing files.
\<close>

fun phase :: "event \<Rightarrow> nat" where
  "phase (Systemctl args) =
     (if args \<noteq> [] \<and> (hd args = ''is-active'' \<or> hd args = ''stop'') then 0 else 2)"
| "phase Sleep = 0"
| "phase (MkdirAll p) = 1"
| "phase (MkdirTemp d p) = 1"
| "phase (CpCopy a b) = 1"
| "phase (Bash a b) = 1"
| "phase (WriteFile p t) = 2"
| "phase (Remove p) = 3"
| "phase (RemoveAll p) = 3"

definition inPhases :: "nat \<Rightarrow> nat \<Rightarrow> event list \<Rightarrow> bool" where
  "inPhases lo hi evs =
     (sorted (map phase evs) \<and> list_all (\<lambda>e. lo \<le> phase e \<and> phase e \<le> hi) evs)"

text \<open>The unit a service-manager command names: its last argument, when it has one
  besides the subcommand.\<close>

fun unitTarget :: "event \<Rightarrow> string option" where
  "unitTarget (Systemctl args) = (if length args < 2 then None else Some (last args))"
| "unitTarget e = None"

fun isRemoveAll :: "event \<Rightarrow> bool" where
  "isRemoveAll (RemoveAll p) = True"
| "isRemoveAll e = False"

text \<open>The events of the steps of an install and of the teardown of the service.\<close>

definition stopEvent :: "string \<Rightarrow> event \<Rightarrow> bool" where
  "stopEvent u e =
     (e = Systemctl [''is-active'', ''--quiet'', u] \<or> e = Systemctl [''stop'', u] \<or> e = Sleep)"

fun fileEvent :: "event \<Rightarrow> bool" where
  "fileEvent (MkdirAll p) = True"
| "fileEvent (CpCopy a b) = True"
| "fileEvent (Bash a b) = True"
| "fileEvent e = False"

definition startEvent :: "Config \<Rightarrow> event \<Rightarrow> bool" where
  "startEvent cfg e =
     (e = WriteFile (UnitPath (UnitFromConfig cfg)) (GenerateFile (UnitFromConfig cfg))
      \<or> e = Systemctl [''daemon-reload'']
      \<or> e = Systemctl [''enable'', ''--now'', UnitNameWildcard (UnitFromConfig cfg)]
      \<or> e = Systemctl [''start'', UnitNameWildcard (UnitFromConfig cfg)])"

definition teardownEvent :: "Config \<Rightarrow> event \<Rightarrow> bool" where
  "teardownEvent cfg e =
     (e = Systemctl [''stop'', UnitNameWildcard (UnitFromConfig cfg)]
      \<or> e = Systemctl [''disable'', UnitNameWildcard (UnitFromConfig cfg)]
      \<or> e = Remove (UnitPath (UnitFromConfig cfg))
      \<or> e = Systemctl [''daemon-reload''])"

definition installEvent :: "Config \<Rightarrow> event \<Rightarrow> bool" where
  "installEvent cfg e =
     (stopEvent (UnitNameWildcard (UnitFromConfig cfg)) e \<or> fileEvent e \<or> startEvent cfg e
      \<or> isRemoveAll e)"

definition uninstallEvent :: "Config \<Rightarrow> event \<Rightarrow> bool" where
  "uninstallEvent cfg e = (teardownEvent cfg e \<or> fileEvent e \<or> isRemoveAll e)"



text \<open>The operations an install issues for one install-file entry, given the install
  root and the staging directory: they do not depend on the world.\<close>

definition entryOps :: "path \<Rightarrow> path \<Rightarrow> FileEntry \<Rightarrow> event list" where
  "entryOps d b entry =
     (case entrySource b entry of
        Inl f \<Rightarrow> []
      | Inr (src, base) \<Rightarrow>
          (case copyDest src base d of
             None \<Rightarrow> []
           | Some dst \<Rightarrow> [MkdirAll (Dir dst), CpCopy src dst]))"

text \<open>The files of the reference world that lie in a directory.\<close>

definition files_in :: "path \<Rightarrow> sim \<Rightarrow> (path \<times> string) list" where
  "files_in d w = filter (\<lambda>(k, v). beneath d k) (sim_files w)"

section \<open>Concrete configurations and worlds\<close>

text \<open>A service that runs as the invoking user, installed from one file of the working
  directory; the service is active.\<close>

definition user_cfg :: Config where
  "user_cfg =
     \<lparr>AppName = ''agent'', BuildFiles = [],
      InstallFiles = [\<lparr>File = ''agent'', From = ''cwd''\<rparr>],
      BuildScript = [], InstallScript = [], UninstallScript = [],
      Systemd = True, SystemdRunAsUser = True, Exec = ''/opt/agent/agent''\<rparr>"

definition user_world :: sim where
  "user_world =
     \<lparr>sim_files = [(''/src/agent'', ''ELF'')],
      sim_dirs = [''/tmp'', ''/opt'', ''/src''],
      sim_cwd = ''/src'', sim_tmp = ''/tmp'', sim_fresh = [''1''],
      sim_service = Active, sim_stop_ok = True, sim_linger = 0,
      sim_config = Some user_cfg\<rparr>"

text \<open>A configuration that asks for a service and gives no command.\<close>

definition noexec_cfg :: Config where
  "noexec_cfg = user_cfg\<lparr>Exec := []\<rparr>"

definition noexec_world :: sim where
  "noexec_world = user_world\<lparr>sim_config := Some noexec_cfg\<rparr>"

text \<open>
  Two applications whose names collide: \<open>app\<close> and \<open>app_extra\<close>. The temp directory holds
  a staging directory of \<open>app_extra\<close> and nothing of \<open>app\<close>.
\<close>

definition app_cfg :: Config where
  "app_cfg =
     \<lparr>AppName = ''app'', BuildFiles = [],
      InstallFiles = [\<lparr>File = ''tool'', From = ''build''\<rparr>],
      BuildScript = [], InstallScript = [], UninstallScript = [],
      Systemd = False, SystemdRunAsUser = False, Exec = []\<rparr>"

definition collide_world :: sim where
  "collide_world =
     \<lparr>sim_files = [(''/tmp/qp_build_app_extra_7/tool'', ''EXTRA'')],
      sim_dirs = [''/tmp'', ''/opt'', ''/src'', ''/tmp/qp_build_app_extra_7''],
      sim_cwd = ''/src'', sim_tmp = ''/tmp'', sim_fresh = [''9''],
      sim_service = Inactive, sim_stop_ok = True, sim_linger = 0,
      sim_config = Some app_cfg\<rparr>"

text \<open>A world with no staging directory at all, and a configuration that installs one
  file of the working directory.\<close>

definition cwd_cfg :: Config where
  "cwd_cfg = app_cfg\<lparr>InstallFiles := [\<lparr>File = ''bin/tool'', From = ''cwd''\<rparr>]\<rparr>"

definition bare_world :: sim where
  "bare_world =
     \<lparr>sim_files = [(''/src/bin/tool'', ''TOOL'')],
      sim_dirs = [''/tmp'', ''/opt'', ''/src'', ''/src/bin''],
      sim_cwd = ''/src'', sim_tmp = ''/tmp'', sim_fresh = [''9''],
      sim_service = Inactive, sim_stop_ok = True, sim_linger = 0,
      sim_config = Some cwd_cfg\<rparr>"

text \<open>The same active service, but the service manager cannot stop it.\<close>

definition stubborn_world :: sim where
  "stubborn_world = user_world\<lparr>sim_stop_ok := False\<rparr>"

text \<open>The agent installed, with an uninstall script configured. In \<open>installed_world\<close>
  the script is nowhere; in \<open>scripted_world\<close> it lies in the scripts directory.\<close>

definition rm_cfg :: Config where
  "rm_cfg = user_cfg\<lparr>UninstallScript := ''cleanup.sh''\<rparr>"

definition installed_world :: sim where
  "installed_world =
     user_world\<lparr>sim_files := [(''/src/agent'', ''ELF''), (''/opt/agent/agent'', ''ELF'')],
                sim_dirs := [''/tmp'', ''/opt'', ''/src'', ''/opt/agent''],
                sim_config := Some rm_cfg\<rparr>"

definition scripted_world :: sim where
  "scripted_world =
     installed_world\<lparr>sim_files := [(''/src/agent'', ''ELF''), (''/src/.qp/cleanup.sh'', ''#!''),
                                     (''/opt/agent/agent'', ''ELF'')]\<rparr>"

text \<open>
  A service-managed application with a build file, an install file of each provenance
  and an install script. In \<open>demo_world\<close> the service is active and needs one poll to
  stop; \<open>staged_world\<close> is the same world after a build has staged \<open>out.bin\<close>.
\<close>

definition demo_cfg :: Config where
  "demo_cfg =
     \<lparr>AppName = ''demo'', BuildFiles = [''out.bin''],
      InstallFiles = [\<lparr>File = ''bin/demo'', From = ''cwd''\<rparr>, \<lparr>File = ''out.bin'', From = ''build''\<rparr>],
      BuildScript = [], InstallScript = ''post.sh'', UninstallScript = [],
      Systemd = True, SystemdRunAsUser = False, Exec = ''/opt/demo/bin/demo''\<rparr>"

definition demo_world :: sim where
  "demo_world =
     \<lparr>sim_files = [(''/src/bin/demo'', ''ELF''), (''/src/out.bin'', ''OUT''),
                   (''/src/.qp/post.sh'', ''#!'')],
      sim_dirs = [''/tmp'', ''/opt'', ''/src''],
      sim_cwd = ''/src'', sim_tmp = ''/tmp'', sim_fresh = [''111'', ''222''],
      sim_service = Active, sim_stop_ok = True, sim_linger = 1,
      sim_config = Some demo_cfg\<rparr>"

definition staged_world :: sim where
  "staged_world =
     demo_world\<lparr>sim_files := [(''/src/bin/demo'', ''ELF''), (''/src/out.bin'', ''OUT''),
                                (''/src/.qp/post.sh'', ''#!''),
                                (''/tmp/qp_build_demo_111/out.bin'', ''OUT'')],
                sim_dirs := [''/tmp'', ''/opt'', ''/src'', ''/tmp/qp_build_demo_111''],
                sim_fresh := [''222'']\<rparr>"

text \<open>The demo world with a staging directory left behind by an earlier run that
  failed: it holds an old \<open>out.bin\<close>.\<close>

definition stale_world :: sim where
  "stale_world =
     demo_world\<lparr>sim_files := [(''/src/bin/demo'', ''ELF''), (''/src/out.bin'', ''OUT''),
                                (''/src/.qp/post.sh'', ''#!''),
                                (''/tmp/qp_build_demo_000/out.bin'', ''OLD'')],
                sim_dirs := [''/tmp'', ''/opt'', ''/src'', ''/tmp/qp_build_demo_000'']\<rparr>"

text \<open>The worlds after one install of the demo application: from \<open>demo_world\<close> with the
  logging install script, and from \<open>stale_world\<close> with the script that does nothing.\<close>

definition logged_world :: sim where
  "logged_world =
     demo_world\<lparr>sim_files := [(''/src/bin/demo'', ''ELF''), (''/src/out.bin'', ''OUT''),
                                (''/src/.qp/post.sh'', ''#!''),
                                (''/opt/demo/bin/demo'', ''ELF''), (''/opt/demo/out.bin'', ''OUT''),
                                (''/opt/demo/post.sh'', ''#!''),
                                (''/opt/demo/install.log'', ''installed'' @ [nl]),
                                (''/usr/lib/systemd/system/demo.service'',
                                 GenerateFile (UnitFromConfig demo_cfg))],
                sim_dirs := [''/tmp'', ''/opt'', ''/src'', ''/opt/demo'', ''/opt/demo/bin''],
                sim_fresh := [''222'']\<rparr>"

definition outdated_world :: sim where
  "outdated_world =
     demo_world\<lparr>sim_files := [(''/src/bin/demo'', ''ELF''), (''/src/out.bin'', ''OUT''),
                                (''/src/.qp/post.sh'', ''#!''),
                                (''/opt/demo/bin/demo'', ''ELF''), (''/opt/demo/out.bin'', ''OLD''),
                                (''/opt/demo/post.sh'', ''#!''),
                                (''/usr/lib/systemd/system/demo.service'',
                                 GenerateFile (UnitFromConfig demo_cfg))],
                sim_dirs := [''/tmp'', ''/opt'', ''/src'', ''/opt/demo'', ''/opt/demo/bin''],
                sim_fresh := [''222'']\<rparr>"

text \<open>The same bare world, with the temp location set to a directory that does not
  exist: it cannot be read.\<close>

definition notmp_world :: sim where
  "notmp_world = bare_world\<lparr>sim_tmp := ''/var/tmp''\<rparr>"

text \<open>The bare world again, where the temp directory holds the staging directory of
  another application and a file of no application.\<close>

definition foreign_world :: sim where
  "foreign_world =
     bare_world\<lparr>sim_files := [(''/src/bin/tool'', ''TOOL''), (''/tmp/notes.txt'', ''N'')],
                sim_dirs := [''/tmp'', ''/opt'', ''/src'', ''/src/bin'', ''/tmp/qp_build_other_3'']\<rparr>"

section \<open>The service unit\<close>

lemma sublist_unlines: "l \<in> set ls \<Longrightarrow> sublist (l @ [nl]) (unlines ls)"
proof -
  assume "l \<in> set ls"
  then obtain xs ys where "ls = xs @ l # ys"
    by (auto dest: split_list)
  then have "unlines ls = unlines xs @ (l @ [nl]) @ unlines ys"
    by (simp add: unlines_def)
  then show ?thesis
    unfolding sublist_def by blast
qed

text \<open>
  Claim C5. For every config, the text of the generated unit file has a Description
  line, the line \<open>ExecStart=\<close> followed by the config's exec, the line
  \<open>WorkingDirectory=\<close> followed by the install root (the install path joined with the
  application name), the line \<open>Restart=always\<close>, and a User line that is \<open>%i\<close> when the
  service runs as the user and \<open>root\<close> otherwise.
\<close>

theorem unit_file_contents:
  "sublist (''Description='' @ GenerateDescription (UnitFromConfig cfg) @ [nl])
      (GenerateFile (UnitFromConfig cfg))
   \<and> sublist (''ExecStart='' @ Exec cfg @ [nl]) (GenerateFile (UnitFromConfig cfg))
   \<and> sublist (''WorkingDirectory='' @ Join [InstallPath, AppName cfg] @ [nl])
        (GenerateFile (UnitFromConfig cfg))
   \<and> sublist (''Restart=always'' @ [nl]) (GenerateFile (UnitFromConfig cfg))
   \<and> sublist (''User='' @ (if SystemdRunAsUser cfg then ''%i'' else ''root'') @ [nl])
        (GenerateFile (UnitFromConfig cfg))"
proof -
  let ?u = "UnitFromConfig cfg"
  let ?ls = "[''[Unit]'', ''Description='' @ GenerateDescription ?u, ''After=network.target'',
     [], ''[Service]'', ''Type=simple'', ''ExecStart='' @ Exec cfg,
     ''WorkingDirectory='' @ Join [InstallPath, AppName cfg], ''Restart=always'',
     ''User='' @ (if SystemdRunAsUser cfg then ''%i'' else ''root''), [],
     ''[Install]'', ''WantedBy=multi-user.target'']"
  have gf: "GenerateFile ?u = unlines ?ls"
    by (simp add: GenerateFile_def GetUser_def UnitFromConfig_def)
  have "sublist (l @ [nl]) (GenerateFile ?u)" if "l \<in> set ?ls" for l
    unfolding gf using that by (rule sublist_unlines)
  from this[of "''Description='' @ GenerateDescription ?u"]
       this[of "''ExecStart='' @ Exec cfg"]
       this[of "''WorkingDirectory='' @ Join [InstallPath, AppName cfg]"]
       this[of "''Restart=always''"]
       this[of "''User='' @ (if SystemdRunAsUser cfg then ''%i'' else ''root'')"]
  show ?thesis by simp
qed

section \<open>Stages extend the trace\<close>

lemma andThen_eq: "andThen m k s = (if fst (m s) = Done then k (snd (m s)) else m s)"
  by (cases "m s"; cases "fst (m s)") (auto simp: andThen_def)

lemma case_bool_pair:
  "(case p of (True, s) \<Rightarrow> f s | (False, s) \<Rightarrow> g s) = (if fst p then f (snd p) else g (snd p))"
  by (cases p; cases "fst p") auto

lemma case_opt_pair:
  "(case p of (None, s) \<Rightarrow> g s | (Some e, s) \<Rightarrow> f e s) =
   (case fst p of None \<Rightarrow> g (snd p) | Some e \<Rightarrow> f e (snd p))"
  by (cases p; cases "fst p") auto

lemma extends_refl: "extends P s s"
  by (simp add: extends_def)

lemma extends_trans: "extends P s s1 \<Longrightarrow> extends P s1 s2 \<Longrightarrow> extends P s s2"
  unfolding extends_def
proof -
  assume "\<exists>evs. trace s1 = trace s @ evs \<and> list_all P evs"
    and "\<exists>evs. trace s2 = trace s1 @ evs \<and> list_all P evs"
  then obtain e1 e2 where "trace s1 = trace s @ e1" "list_all P e1"
    "trace s2 = trace s1 @ e2" "list_all P e2"
    by blast
  then have "trace s2 = trace s @ (e1 @ e2) \<and> list_all P (e1 @ e2)"
    by simp
  then show "\<exists>evs. trace s2 = trace s @ evs \<and> list_all P evs"
    by blast
qed

lemma extends_mono: "extends P s s' \<Longrightarrow> (\<And>e. P e \<Longrightarrow> Q e) \<Longrightarrow> extends Q s s'"
  unfolding extends_def list_all_iff by blast

lemma extends_issued: "extends P s s' \<Longrightarrow> trace s' = trace s @ issued s s' \<and> list_all P (issued s s')"
  by (auto simp: extends_def issued_def)

lemma issued_append: "trace s' = trace s @ evs \<Longrightarrow> issued s s' = evs"
  by (simp add: issued_def)

lemma issued_trans:
  "extends P s s1 \<Longrightarrow> extends Q s1 s2 \<Longrightarrow> issued s s2 = issued s s1 @ issued s1 s2"
  by (auto simp: extends_def issued_def)

lemma extends_event: "trace s' = trace s1 @ [e] \<Longrightarrow> P e \<Longrightarrow> extends P s s1 \<Longrightarrow> extends P s s'"
  by (rule extends_trans[of P s s1 s']) (simp_all add: extends_def)

lemma trace_systemctl: "trace (snd (systemctl os args s)) = trace s @ [Systemctl args]"
  by (simp add: systemctl_def effect_def)

lemma trace_bash: "trace (snd (bash os a b s)) = trace s @ [Bash a b]"
  by (simp add: bash_def effect_def)

lemma trace_mkdirAll: "trace (snd (mkdirAll os p s)) = trace s @ [MkdirAll p]"
  by (simp add: mkdirAll_def effect_def)

lemma trace_cpCopy: "trace (snd (cpCopy os a b s)) = trace s @ [CpCopy a b]"
  by (simp add: cpCopy_def effect_def)

lemma trace_writeFile: "trace (snd (writeFile os p t s)) = trace s @ [WriteFile p t]"
  by (simp add: writeFile_def effect_def)

lemma trace_remove: "trace (snd (remove os p s)) = trace s @ [Remove p]"
  by (simp add: remove_def effect_def)

lemma trace_removeAll: "trace (snd (removeAllPath os p s)) = trace s @ [RemoveAll p]"
  by (simp add: removeAllPath_def effect_def)

lemma trace_sleep: "trace (sleep os s) = trace s @ [Sleep]"
  by (simp add: sleep_def)

lemma trace_mkdirTemp: "trace (snd (mkdirTemp os d p s)) = trace s @ [MkdirTemp d p]"
  by (simp add: mkdirTemp_def)

lemmas trace_simps = trace_systemctl trace_bash trace_mkdirAll trace_cpCopy trace_writeFile
  trace_remove trace_removeAll trace_sleep trace_mkdirTemp

text \<open>Each primitive, in the form that peels the last operation off the state.\<close>

lemma ext_systemctl: "P (Systemctl args) \<Longrightarrow> extends P s s1 \<Longrightarrow> extends P s (snd (systemctl os args s1))"
  by (rule extends_event[OF trace_systemctl])

lemma ext_bash: "P (Bash a b) \<Longrightarrow> extends P s s1 \<Longrightarrow> extends P s (snd (bash os a b s1))"
  by (rule extends_event[OF trace_bash])

lemma ext_mkdirAll: "P (MkdirAll p) \<Longrightarrow> extends P s s1 \<Longrightarrow> extends P s (snd (mkdirAll os p s1))"
  by (rule extends_event[OF trace_mkdirAll])

lemma ext_cpCopy: "P (CpCopy a b) \<Longrightarrow> extends P s s1 \<Longrightarrow> extends P s (snd (cpCopy os a b s1))"
  by (rule extends_event[OF trace_cpCopy])

lemma ext_writeFile: "P (WriteFile p t) \<Longrightarrow> extends P s s1 \<Longrightarrow> extends P s (snd (writeFile os p t s1))"
  by (rule extends_event[OF trace_writeFile])

lemma ext_remove: "P (Remove p) \<Longrightarrow> extends P s s1 \<Longrightarrow> extends P s (snd (remove os p s1))"
  by (rule extends_event[OF trace_remove])

lemma ext_removeAll: "P (RemoveAll p) \<Longrightarrow> extends P s s1 \<Longrightarrow> extends P s (snd (removeAllPath os p s1))"
  by (rule extends_event[OF trace_removeAll])

lemma ext_sleep: "P Sleep \<Longrightarrow> extends P s s1 \<Longrightarrow> extends P s (sleep os s1)"
  by (rule extends_event[OF trace_sleep])

lemma ext_mkdirTemp: "P (MkdirTemp d p) \<Longrightarrow> extends P s s1 \<Longrightarrow> extends P s (snd (mkdirTemp os d p s1))"
  by (rule extends_event[OF trace_mkdirTemp])

lemma ext_andThen:
  assumes "\<And>s1. extends P s s1 \<Longrightarrow> extends P s (snd (m s1))"
    and "\<And>s1. extends P s s1 \<Longrightarrow> extends P s (snd (k s1))"
    and "extends P s s1"
  shows "extends P s (snd (andThen m k s1))"
  using assms by (simp add: andThen_eq)

section \<open>What each step of a stage issues\<close>

lemma waitStopped_ext:
  "extends (stopEvent u) s s1 \<Longrightarrow> extends (stopEvent u) s (snd (waitStopped fuel os u s1))"
proof (induction fuel arbitrary: s1)
  case 0
  then show ?case by simp
next
  case (Suc n)
  have a: "extends (stopEvent u) s (snd (systemctl os [''is-active'', ''--quiet'', u] s1))"
    by (rule ext_systemctl[OF _ Suc.prems]) (simp add: stopEvent_def)
  have b: "extends (stopEvent u) s (sleep os (snd (systemctl os [''is-active'', ''--quiet'', u] s1)))"
    by (rule ext_sleep[OF _ a]) (simp add: stopEvent_def)
  from a Suc.IH[OF b] show ?case
    by (simp add: case_bool_pair)
qed

lemma stopActive_ext:
  "extends (stopEvent (UnitNameWildcard (UnitFromConfig cfg))) s s1 \<Longrightarrow>
   extends (stopEvent (UnitNameWildcard (UnitFromConfig cfg))) s (snd (stopActive fuel os cfg s1))"
  unfolding stopActive_def Let_def
  by (auto simp: case_bool_pair stopEvent_def intro!: waitStopped_ext ext_systemctl)

lemma copyPreserveRelBase_ext:
  "extends fileEvent s s1 \<Longrightarrow> extends fileEvent s (snd (copyPreserveRelBase os src base root s1))"
  unfolding copyPreserveRelBase_def
  by (auto simp: case_bool_pair split: option.splits intro!: ext_mkdirAll ext_cpCopy)

lemma runScript_ext:
  "extends fileEvent s s1 \<Longrightarrow> extends fileEvent s (snd (runScript os p d s1))"
  unfolding runScript_def
  by (auto simp: case_bool_pair intro!: ext_bash)

lemma createInstallDir_ext:
  "extends fileEvent s s1 \<Longrightarrow> extends fileEvent s (snd (createInstallDir os d s1))"
  unfolding createInstallDir_def
  by (auto simp: case_bool_pair intro!: ext_mkdirAll)

lemma installEntries_ext:
  "extends fileEvent s s1 \<Longrightarrow> extends fileEvent s (snd (installEntries os d b entries s1))"
proof (induction entries arbitrary: s1)
  case Nil
  then show ?case by simp
next
  case (Cons entry rest)
  show ?case
  proof (cases "entrySource b entry")
    case (Inl f)
    with Cons.prems show ?thesis by simp
  next
    case (Inr sb)
    obtain src base where sb: "sb = (src, base)" by (cases sb)
    let ?c = "copyPreserveRelBase os src base d s1"
    have c: "extends fileEvent s (snd ?c)"
      by (rule copyPreserveRelBase_ext[OF Cons.prems])
    from Cons.IH[OF c] c Cons.prems Inr sb show ?thesis
      by (simp add: case_opt_pair split: option.splits)
  qed
qed

lemma installScriptStep_ext:
  "extends fileEvent s s1 \<Longrightarrow> extends fileEvent s (snd (installScriptStep os cfg d s1))"
  unfolding installScriptStep_def Let_def
  by (auto intro!: runScript_ext ext_cpCopy)

lemma uninstallScriptStep_ext:
  "extends fileEvent s s1 \<Longrightarrow> extends fileEvent s (snd (uninstallScriptStep os cfg d s1))"
  unfolding uninstallScriptStep_def Let_def
  by (auto intro!: runScript_ext ext_cpCopy)

lemma runCommands_ext:
  "list_all (\<lambda>args. P (Systemctl (tl args))) cmds \<Longrightarrow> extends P s s1 \<Longrightarrow>
   extends P s (snd (runCommands os cmds s1))"
proof (induction cmds arbitrary: s1)
  case Nil
  then show ?case by simp
next
  case (Cons args rest)
  have a: "extends P s (snd (systemctl os (tl args) s1))"
    by (rule ext_systemctl) (use Cons.prems in auto)
  from Cons.IH[OF _ a] Cons.prems(1) a show ?case
    by (simp add: case_bool_pair)
qed

lemma installSystemdUnit_ext:
  "extends (startEvent cfg) s s1 \<Longrightarrow> extends (startEvent cfg) s (snd (installSystemdUnit os cfg s1))"
  unfolding installSystemdUnit_def Let_def
  by (auto simp: case_bool_pair startEvent_def intro!: ext_systemctl ext_writeFile)

lemma startService_ext:
  "extends (startEvent cfg) s s1 \<Longrightarrow> extends (startEvent cfg) s (snd (startService os cfg s1))"
  unfolding startService_def Let_def
  by (auto simp: case_bool_pair case_opt_pair startEvent_def split: option.splits
           intro!: installSystemdUnit_ext ext_systemctl)

lemma removeStaging_ext:
  "extends isRemoveAll s s1 \<Longrightarrow> extends isRemoveAll s (removeStaging os tmp pre entries s1)"
proof (induction entries arbitrary: s1)
  case Nil
  then show ?case by simp
next
  case (Cons e rest)
  have "extends isRemoveAll s (snd (removeAllPath os (Join [tmp, e]) s1))"
    by (rule ext_removeAll[OF _ Cons.prems]) simp
  from Cons.IH[OF this] Cons.IH[OF Cons.prems] show ?case
    by simp
qed

lemma cleanupStaging_ext:
  "extends isRemoveAll s s1 \<Longrightarrow> extends isRemoveAll s (snd (cleanupStaging os cfg s1))"
  unfolding cleanupStaging_def Let_def
  by (auto split: option.splits intro!: removeStaging_ext)

lemma teardownService_ext:
  "extends (teardownEvent cfg) s s1 \<Longrightarrow> extends (teardownEvent cfg) s (teardownService os cfg s1)"
  unfolding teardownService_def Let_def
  by (auto simp: teardownEvent_def intro!: ext_systemctl ext_remove)

lemma ext_lift:
  assumes "\<And>a b. extends P a b \<Longrightarrow> extends P a (g b)"
    and "\<And>e. P e \<Longrightarrow> Q e"
    and "extends Q s s1"
  shows "extends Q s (g s1)"
proof -
  have "extends P s1 (g s1)"
    by (rule assms(1)[OF extends_refl])
  then have "extends Q s1 (g s1)"
    by (rule extends_mono) (rule assms(2))
  with assms(3) show ?thesis
    by (rule extends_trans)
qed

lemma doInstall_ext:
  "extends (installEvent cfg) s s1 \<Longrightarrow> extends (installEvent cfg) s (snd (doInstall fuel os cfg s1))"
  unfolding doInstall_def Let_def
  by (intro ext_andThen ext_lift[OF stopActive_ext] ext_lift[OF createInstallDir_ext]
        ext_lift[OF installEntries_ext] ext_lift[OF installScriptStep_ext]
        ext_lift[OF startService_ext] ext_lift[OF cleanupStaging_ext];
      (assumption | simp add: installEvent_def))

lemma doUninstall_ext:
  "extends (uninstallEvent cfg) s s1 \<Longrightarrow> extends (uninstallEvent cfg) s (snd (doUninstall os cfg s1))"
proof -
  assume a: "extends (uninstallEvent cfg) s s1"
  have t: "extends (uninstallEvent cfg) s (teardownService os cfg s1)"
    apply (rule ext_lift[OF teardownService_ext _ a])
     apply assumption
    apply (simp add: uninstallEvent_def)
    done
  have "extends (uninstallEvent cfg) s
     (snd (andThen (uninstallScriptStep os cfg (Join [InstallPath, AppName cfg]))
        (\<lambda>s'. (Done, snd (removeAllPath os (Join [InstallPath, AppName cfg]) s')))
        (teardownService os cfg s1)))"
  proof (rule ext_andThen[OF _ _ t])
    fix s2 assume b: "extends (uninstallEvent cfg) s s2"
    show "extends (uninstallEvent cfg) s (snd (uninstallScriptStep os cfg (Join [InstallPath, AppName cfg]) s2))"
      apply (rule ext_lift[OF uninstallScriptStep_ext _ b])
       apply assumption
      apply (simp add: uninstallEvent_def)
      done
  next
    fix s2 assume "extends (uninstallEvent cfg) s s2"
    then show "extends (uninstallEvent cfg) s (snd (Done, snd (removeAllPath os (Join [InstallPath, AppName cfg]) s2)))"
      by (simp add: ext_removeAll uninstallEvent_def)
  qed
  then show ?thesis
    by (simp add: doUninstall_def Let_def)
qed

section \<open>What a completed step has done\<close>

lemma waitStopped_Done:
  "fst (waitStopped fuel os u s) = Done \<Longrightarrow>
   \<exists>s0. systemctl os [''is-active'', ''--quiet'', u] s0 = (False, snd (waitStopped fuel os u s))"
proof (induction fuel arbitrary: s)
  case 0
  then show ?case by simp
next
  case (Suc n)
  let ?q = "systemctl os [''is-active'', ''--quiet'', u] s"
  show ?case
  proof (cases "fst ?q")
    case True
    with Suc.prems have "fst (waitStopped n os u (sleep os (snd ?q))) = Done"
      by (simp add: case_bool_pair)
    from Suc.IH[OF this] True show ?thesis
      by (simp add: case_bool_pair)
  next
    case False
    then have "?q = (False, snd (waitStopped (Suc n) os u s))"
      by (simp add: case_bool_pair prod_eq_iff)
    then show ?thesis by blast
  qed
qed

lemma stopActive_Done:
  assumes "fst (stopActive fuel os cfg s) = Done" and "Systemd cfg"
  shows "\<exists>s0. systemctl os [''is-active'', ''--quiet'', UnitNameWildcard (UnitFromConfig cfg)] s0
            = (False, snd (stopActive fuel os cfg s))"
proof -
  let ?W = "UnitNameWildcard (UnitFromConfig cfg)"
  let ?q = "systemctl os [''is-active'', ''--quiet'', ?W] s"
  let ?p = "systemctl os [''stop'', ?W] (snd ?q)"
  show ?thesis
  proof (cases "fst ?q")
    case False
    with assms(2) have "?q = (False, snd (stopActive fuel os cfg s))"
      by (simp add: stopActive_def Let_def case_bool_pair prod_eq_iff)
    then show ?thesis by blast
  next
    case True
    with assms have p: "fst ?p" and w: "fst (waitStopped fuel os ?W (snd ?p)) = Done"
      and e: "snd (stopActive fuel os cfg s) = snd (waitStopped fuel os ?W (snd ?p))"
      by (auto simp: stopActive_def Let_def case_bool_pair split: if_splits)
    from waitStopped_Done[OF w] e show ?thesis by simp
  qed
qed

lemma copyPreserveRelBase_None:
  assumes "fst (copyPreserveRelBase os src base d s) = None"
  shows "\<exists>dst. copyDest src base d = Some dst
           \<and> trace (snd (copyPreserveRelBase os src base d s)) = trace s @ [MkdirAll (Dir dst), CpCopy src dst]"
  using assms
  by (auto simp: copyPreserveRelBase_def case_bool_pair trace_mkdirAll trace_cpCopy
           split: option.splits if_splits)

lemma installEntries_copied:
  "fst (installEntries os d b entries s) = Done \<Longrightarrow>
   \<forall>entry \<in> set entries. \<exists>src base dst.
      entrySource b entry = Inr (src, base) \<and> copyDest src base d = Some dst
      \<and> CpCopy src dst \<in> set (issued s (snd (installEntries os d b entries s)))"
proof (induction entries arbitrary: s)
  case Nil
  then show ?case by simp
next
  case (Cons e rest)
  from Cons.prems obtain src base where es: "entrySource b e = Inr (src, base)"
    by (cases "entrySource b e") auto
  let ?c = "copyPreserveRelBase os src base d s"
  from Cons.prems es have ex: "exists os src s" and c: "fst ?c = None"
    and r: "fst (installEntries os d b rest (snd ?c)) = Done"
    and fin: "snd (installEntries os d b (e # rest) s) = snd (installEntries os d b rest (snd ?c))"
    by (auto simp: case_opt_pair split: if_splits option.splits)
  from copyPreserveRelBase_None[OF c] obtain dst where dst: "copyDest src base d = Some dst"
    and tr: "trace (snd ?c) = trace s @ [MkdirAll (Dir dst), CpCopy src dst]"
    by blast
  have e1: "extends fileEvent s (snd ?c)"
    by (rule copyPreserveRelBase_ext[OF extends_refl])
  have e2: "extends fileEvent (snd ?c) (snd (installEntries os d b rest (snd ?c)))"
    by (rule installEntries_ext[OF extends_refl])
  have iss: "issued s (snd (installEntries os d b (e # rest) s)) =
     issued s (snd ?c) @ issued (snd ?c) (snd (installEntries os d b rest (snd ?c)))"
    unfolding fin by (rule issued_trans[OF e1 e2])
  from tr have i1: "issued s (snd ?c) = [MkdirAll (Dir dst), CpCopy src dst]"
    by (rule issued_append)
  show ?case
  proof
    fix entry assume "entry \<in> set (e # rest)"
    then consider "entry = e" | "entry \<in> set rest" by auto
    then show "\<exists>src base dst.
      entrySource b entry = Inr (src, base) \<and> copyDest src base d = Some dst
      \<and> CpCopy src dst \<in> set (issued s (snd (installEntries os d b (e # rest) s)))"
    proof cases
      case 1
      with es dst iss i1 show ?thesis by auto
    next
      case 2
      with Cons.IH[OF r] obtain src' base' dst' where
        "entrySource b entry = Inr (src', base')" "copyDest src' base' d = Some dst'"
        "CpCopy src' dst' \<in> set (issued (snd ?c) (snd (installEntries os d b rest (snd ?c))))"
        by blast
      with iss show ?thesis by auto
    qed
  qed
qed

lemma installScriptStep_eq:
  "installScriptStep os cfg d s =
     (if InstallScript cfg = [] then (Done, s)
      else
        let sp = Join [d, Base (InstallScript cfg)];
            st = (if exists os sp s then (True, s) else cpCopy os (GetInstallScript cfg) sp s);
            b = bash os sp d (snd st)
        in if \<not> fst st then (Fatal (InstallScriptCopyFailed (InstallScript cfg)), snd st)
           else if \<not> fst b then (Fatal (ScriptFailed sp), snd b)
           else (Done, snd b))"
  by (simp add: installScriptStep_def runScript_def Let_def case_bool_pair)

lemma installScriptStep_ran:
  assumes "fst (installScriptStep os cfg d s1) = Done" and "InstallScript cfg \<noteq> []"
  shows "Bash (Join [d, Base (InstallScript cfg)]) d
           \<in> set (issued s1 (snd (installScriptStep os cfg d s1)))"
proof -
  let ?sp = "Join [d, Base (InstallScript cfg)]"
  let ?st = "if exists os ?sp s1 then (True, s1) else cpCopy os (GetInstallScript cfg) ?sp s1"
  from assms have s2: "snd (installScriptStep os cfg d s1) = snd (bash os ?sp d (snd ?st))"
    by (simp add: installScriptStep_eq Let_def split: if_splits)
  have "\<exists>evs. trace (snd ?st) = trace s1 @ evs"
    by (simp add: trace_cpCopy)
  then obtain evs where "trace (snd ?st) = trace s1 @ evs"
    by blast
  then have "trace (snd (bash os ?sp d (snd ?st))) = trace s1 @ (evs @ [Bash ?sp d])"
    by (simp add: trace_bash)
  then have "issued s1 (snd (bash os ?sp d (snd ?st))) = evs @ [Bash ?sp d]"
    by (rule issued_append)
  with s2 show ?thesis
    by simp
qed

lemma startService_Done:
  assumes "fst (startService os cfg s) = Done" and "Systemd cfg"
  shows "issued s (snd (startService os cfg s)) =
     [WriteFile (UnitPath (UnitFromConfig cfg)) (GenerateFile (UnitFromConfig cfg)),
      Systemctl [''daemon-reload''],
      Systemctl [''enable'', ''--now'', UnitNameWildcard (UnitFromConfig cfg)],
      Systemctl [''start'', UnitNameWildcard (UnitFromConfig cfg)]]"
  using assms
  by (intro issued_append)
     (auto simp: startService_def installSystemdUnit_def Let_def case_bool_pair case_opt_pair
        trace_systemctl trace_writeFile split: if_splits option.splits)

lemma startService_off: "\<not> Systemd cfg \<Longrightarrow> startService os cfg s = (Done, s)"
  by (simp add: startService_def)

lemma cleanupStaging_Done: "fst (cleanupStaging os cfg s) = Done"
  by (simp add: cleanupStaging_def Let_def split: option.splits)

lemma createInstallDir_issued: "issued s (snd (createInstallDir os d s)) = [MkdirAll d]"
  by (rule issued_append) (simp add: createInstallDir_def case_bool_pair trace_mkdirAll)

lemma installEntries_ops:
  "fst (installEntries os d b entries s) = Done \<Longrightarrow>
   issued s (snd (installEntries os d b entries s)) = concat (map (entryOps d b) entries)"
proof (induction entries arbitrary: s)
  case Nil
  then show ?case by (simp add: issued_def)
next
  case (Cons e rest)
  from Cons.prems obtain src base where es: "entrySource b e = Inr (src, base)"
    by (cases "entrySource b e") auto
  let ?c = "copyPreserveRelBase os src base d s"
  from Cons.prems es have c: "fst ?c = None"
    and r: "fst (installEntries os d b rest (snd ?c)) = Done"
    and fin: "snd (installEntries os d b (e # rest) s) = snd (installEntries os d b rest (snd ?c))"
    by (auto simp: case_opt_pair split: if_splits option.splits)
  from copyPreserveRelBase_None[OF c] obtain dst where dst: "copyDest src base d = Some dst"
    and tr: "trace (snd ?c) = trace s @ [MkdirAll (Dir dst), CpCopy src dst]"
    by blast
  have e1: "extends fileEvent s (snd ?c)"
    by (rule copyPreserveRelBase_ext[OF extends_refl])
  have e2: "extends fileEvent (snd ?c) (snd (installEntries os d b rest (snd ?c)))"
    by (rule installEntries_ext[OF extends_refl])
  have "issued s (snd (installEntries os d b (e # rest) s)) =
     issued s (snd ?c) @ issued (snd ?c) (snd (installEntries os d b rest (snd ?c)))"
    unfolding fin by (rule issued_trans[OF e1 e2])
  moreover from tr have "issued s (snd ?c) = [MkdirAll (Dir dst), CpCopy src dst]"
    by (rule issued_append)
  moreover have "entryOps d b e = [MkdirAll (Dir dst), CpCopy src dst]"
    using es dst by (simp add: entryOps_def)
  ultimately show ?case
    using Cons.IH[OF r] by simp
qed

lemma entryOps_cwd: "From entry = ''cwd'' \<Longrightarrow> entryOps d b entry = entryOps d b' entry"
  by (simp add: entryOps_def entrySource_def)

lemma installScriptStep_issued:
  assumes "fst (installScriptStep os cfg d s) = Done"
  shows "\<exists>staged. (staged = [] \<or> staged = [CpCopy (GetInstallScript cfg) (Join [d, Base (InstallScript cfg)])])
     \<and> (exists os (Join [d, Base (InstallScript cfg)]) s \<longrightarrow> staged = [])
     \<and> issued s (snd (installScriptStep os cfg d s)) =
          staged @ (if InstallScript cfg = [] then [] else [Bash (Join [d, Base (InstallScript cfg)]) d])"
proof (cases "InstallScript cfg = []")
  case True
  then show ?thesis by (simp add: installScriptStep_eq issued_def)
next
  case False
  let ?sp = "Join [d, Base (InstallScript cfg)]"
  show ?thesis
  proof (cases "exists os ?sp s")
    case True
    with False assms have "trace (snd (installScriptStep os cfg d s)) = trace s @ [Bash ?sp d]"
      by (simp add: installScriptStep_eq Let_def trace_bash split: if_splits)
    then have "issued s (snd (installScriptStep os cfg d s)) = [Bash ?sp d]"
      by (rule issued_append)
    with False show ?thesis by simp
  next
    case nex: False
    with False assms have "trace (snd (installScriptStep os cfg d s))
        = trace s @ [CpCopy (GetInstallScript cfg) ?sp, Bash ?sp d]"
      by (simp add: installScriptStep_eq Let_def trace_bash trace_cpCopy split: if_splits)
    then have "issued s (snd (installScriptStep os cfg d s)) = [CpCopy (GetInstallScript cfg) ?sp, Bash ?sp d]"
      by (rule issued_append)
    with False nex show ?thesis by simp
  qed
qed

lemma doInstall_completed:
  assumes "fst (doInstall fuel os cfg s) = Done"
  shows "\<exists>s1 s2 s3 s4 s5 s6.
      stopActive fuel os cfg s = (Done, s1)
    \<and> createInstallDir os (Join [InstallPath, AppName cfg]) s1 = (Done, s2)
    \<and> installEntries os (Join [InstallPath, AppName cfg])
         (fst (findTempBuildDir os (AppName cfg) (world s2))) (InstallFiles cfg) s2 = (Done, s3)
    \<and> installScriptStep os cfg (Join [InstallPath, AppName cfg]) s3 = (Done, s4)
    \<and> startService os cfg s4 = (Done, s5)
    \<and> cleanupStaging os cfg s5 = (Done, s6)
    \<and> snd (doInstall fuel os cfg s) = s6
    \<and> issued s s6 = issued s s1 @ (issued s1 s2 @ issued s2 s3 @ issued s3 s4) @ issued s4 s5 @ issued s5 s6"
proof -
  define d where "d = Join [InstallPath, AppName cfg]"
  define A where "A = stopActive fuel os cfg"
  define B where "B = createInstallDir os d"
  define C where "C = (\<lambda>s. installEntries os d (fst (findTempBuildDir os (AppName cfg) (world s)))
      (InstallFiles cfg) s)"
  define D where "D = installScriptStep os cfg d"
  define E where "E = startService os cfg"
  define F where "F = cleanupStaging os cfg"
  define s1 where "s1 = snd (A s)"
  define s2 where "s2 = snd (B s1)"
  define s3 where "s3 = snd (C s2)"
  define s4 where "s4 = snd (D s3)"
  define s5 where "s5 = snd (E s4)"
  define s6 where "s6 = snd (F s5)"
  have run: "doInstall fuel os cfg = andThen A (andThen B (andThen C (andThen D (andThen E F))))"
    by (simp add: doInstall_def Let_def A_def B_def C_def D_def E_def F_def d_def)
  from assms have a: "fst (A s) = Done"
    unfolding run by (simp add: andThen_eq split: if_splits)
  with assms have r1: "fst (andThen B (andThen C (andThen D (andThen E F))) s1) = Done"
    and f1: "snd (doInstall fuel os cfg s) = snd (andThen B (andThen C (andThen D (andThen E F))) s1)"
    unfolding run s1_def by (simp_all add: andThen_eq[of A])
  from r1 have b: "fst (B s1) = Done"
    by (simp add: andThen_eq[of B] split: if_splits)
  with r1 f1 have r2: "fst (andThen C (andThen D (andThen E F)) s2) = Done"
    and f2: "snd (doInstall fuel os cfg s) = snd (andThen C (andThen D (andThen E F)) s2)"
    unfolding s2_def by (simp_all add: andThen_eq[of B])
  from r2 have c: "fst (C s2) = Done"
    by (simp add: andThen_eq[of C] split: if_splits)
  with r2 f2 have r3: "fst (andThen D (andThen E F) s3) = Done"
    and f3: "snd (doInstall fuel os cfg s) = snd (andThen D (andThen E F) s3)"
    unfolding s3_def by (simp_all add: andThen_eq[of C])
  from r3 have d': "fst (D s3) = Done"
    by (simp add: andThen_eq[of D] split: if_splits)
  with r3 f3 have r4: "fst (andThen E F s4) = Done"
    and f4: "snd (doInstall fuel os cfg s) = snd (andThen E F s4)"
    unfolding s4_def by (simp_all add: andThen_eq[of D])
  from r4 have e: "fst (E s4) = Done"
    by (simp add: andThen_eq[of E] split: if_splits)
  with r4 f4 have f': "fst (F s5) = Done" and fin: "snd (doInstall fuel os cfg s) = s6"
    unfolding s5_def s6_def by (simp_all add: andThen_eq[of E])
  have x1: "extends (stopEvent (UnitNameWildcard (UnitFromConfig cfg))) s s1"
    unfolding s1_def A_def by (rule stopActive_ext[OF extends_refl])
  have x2: "extends fileEvent s1 s2"
    unfolding s2_def B_def by (rule createInstallDir_ext[OF extends_refl])
  have x3: "extends fileEvent s2 s3"
    unfolding s3_def C_def by (rule installEntries_ext[OF extends_refl])
  have x4: "extends fileEvent s3 s4"
    unfolding s4_def D_def by (rule installScriptStep_ext[OF extends_refl])
  have x5: "extends (startEvent cfg) s4 s5"
    unfolding s5_def E_def by (rule startService_ext[OF extends_refl])
  have x6: "extends isRemoveAll s5 s6"
    unfolding s6_def F_def by (rule cleanupStaging_ext[OF extends_refl])
  have t6: "issued s s6 = issued s s1 @ (issued s1 s2 @ issued s2 s3 @ issued s3 s4) @ issued s4 s5 @ issued s5 s6"
    using extends_issued[OF x1] extends_issued[OF x2] extends_issued[OF x3]
      extends_issued[OF x4] extends_issued[OF x5] extends_issued[OF x6]
    by (intro issued_append) simp
  have "A s = (Done, s1)" "B s1 = (Done, s2)" "C s2 = (Done, s3)" "D s3 = (Done, s4)"
    "E s4 = (Done, s5)" "F s5 = (Done, s6)"
    using a b c d' e f'
    by (simp_all add: prod_eq_iff s1_def s2_def s3_def s4_def s5_def s6_def)
  with fin t6 show ?thesis
    unfolding A_def B_def C_def D_def E_def F_def d_def by blast
qed

section \<open>Splitting and joining at the separator\<close>

lemma split_on_nonempty: "split_on c s \<noteq> []"
  by (induction s) (auto split: list.splits)



lemma join_split: "join_sep (split_on sep s) = s"
proof (induction s)
  case Nil
  show ?case by simp
next
  case (Cons x xs)
  show ?case
  proof (cases "x = sep")
    case True
    with Cons show ?thesis
      by (cases "split_on sep xs") (simp_all add: split_on_nonempty)
  next
    case False
    obtain w ws where w: "split_on sep xs = w # ws"
      by (cases "split_on sep xs") (simp_all add: split_on_nonempty)
    with Cons False show ?thesis
      by (cases ws) simp_all
  qed
qed



















section \<open>Clean, Join and Rel on paths\<close>





lemma join_sep_nonempty: "x \<noteq> [] \<Longrightarrow> join_sep (x # xs) \<noteq> []"
  by (cases xs) simp_all























section \<open>Unit names and wildcard targets\<close>

text \<open>
  Claim C7. With \<open>serviceRunAsUser\<close> the unit name is the application name followed by
  \<open>@\<close>, and the service-manager commands name the wildcard (the unit name followed by
  \<open>*\<close>); without it both are the application name. Every service-manager command that
  install or uninstall issues on a unit (is-active, stop, enable, start, disable) names
  that wildcard.
\<close>

theorem wildcard_targets:
  "UnitName (UnitFromConfig cfg) = (if SystemdRunAsUser cfg then AppName cfg @ ''@'' else AppName cfg)
   \<and> UnitNameWildcard (UnitFromConfig cfg) =
       (if SystemdRunAsUser cfg then AppName cfg @ ''@'' @ ''*'' else AppName cfg)
   \<and> (\<forall>e \<in> set (issued s (snd (doInstall fuel os cfg s))).
         \<forall>u. unitTarget e = Some u \<longrightarrow> u = UnitNameWildcard (UnitFromConfig cfg))
   \<and> (\<forall>e \<in> set (issued s (snd (doUninstall os cfg s))).
         \<forall>u. unitTarget e = Some u \<longrightarrow> u = UnitNameWildcard (UnitFromConfig cfg))"
proof -
  let ?W = "UnitNameWildcard (UnitFromConfig cfg)"
  let ?T = "\<lambda>e. \<forall>u. unitTarget e = Some u \<longrightarrow> u = ?W"
  have i: "?T e" if "installEvent cfg e" for e
    using that
    by (cases e) (auto simp: installEvent_def stopEvent_def startEvent_def)
  have u: "?T e" if "uninstallEvent cfg e" for e
    using that
    by (cases e) (auto simp: uninstallEvent_def teardownEvent_def)
  have "list_all (installEvent cfg) (issued s (snd (doInstall fuel os cfg s)))"
    using extends_issued[OF doInstall_ext[OF extends_refl]] by blast
  with i have 1: "\<forall>e \<in> set (issued s (snd (doInstall fuel os cfg s))). ?T e"
    unfolding list_all_iff by blast
  have "list_all (uninstallEvent cfg) (issued s (snd (doUninstall os cfg s)))"
    using extends_issued[OF doUninstall_ext[OF extends_refl]] by blast
  with u have 2: "\<forall>e \<in> set (issued s (snd (doUninstall os cfg s))). ?T e"
    unfolding list_all_iff by blast
  have 3: "UnitName (UnitFromConfig cfg) = (if SystemdRunAsUser cfg then AppName cfg @ ''@'' else AppName cfg)"
    "?W = (if SystemdRunAsUser cfg then AppName cfg @ ''@'' @ ''*'' else AppName cfg)"
    by (simp_all add: UnitName_def UnitNameWildcard_def UnitFromConfig_def)
  from 1 2 3 show ?thesis by blast
qed

theorem wildcard_targets_witness:
  "UnitName (UnitFromConfig user_cfg) = ''agent@''
   \<and> UnitNameWildcard (UnitFromConfig user_cfg) = ''agent@*''
   \<and> issued (start user_world) (snd (doInstall 3 (sim_os script_noop) user_cfg (start user_world))) =
       [Systemctl [''is-active'', ''--quiet'', ''agent@*''], Systemctl [''stop'', ''agent@*''],
        Systemctl [''is-active'', ''--quiet'', ''agent@*''],
        MkdirAll ''/opt/agent'', MkdirAll ''/opt/agent'', CpCopy ''agent'' ''/opt/agent/agent'',
        WriteFile ''/usr/lib/systemd/system/agent@.service''
          (GenerateFile (UnitFromConfig user_cfg)),
        Systemctl [''daemon-reload''], Systemctl [''enable'', ''--now'', ''agent@*''],
        Systemctl [''start'', ''agent@*'']]
   \<and> issued (start user_world) (snd (doUninstall (sim_os script_noop) user_cfg (start user_world))) =
       [Systemctl [''stop'', ''agent@*''], Systemctl [''disable'', ''agent@*''],
        Remove ''/usr/lib/systemd/system/agent@.service'', Systemctl [''daemon-reload''],
        RemoveAll ''/opt/agent'']
   \<and> unitTarget (Systemctl [''stop'', ''agent@*'']) = Some ''agent@*''"
proof -
  have a: "UnitName (UnitFromConfig user_cfg) = ''agent@''"
    and b: "UnitNameWildcard (UnitFromConfig user_cfg) = ''agent@*''"
    by code_simp+
  have c: "issued (start user_world) (snd (doInstall 3 (sim_os script_noop) user_cfg (start user_world))) =
       [Systemctl [''is-active'', ''--quiet'', ''agent@*''], Systemctl [''stop'', ''agent@*''],
        Systemctl [''is-active'', ''--quiet'', ''agent@*''],
        MkdirAll ''/opt/agent'', MkdirAll ''/opt/agent'', CpCopy ''agent'' ''/opt/agent/agent'',
        WriteFile ''/usr/lib/systemd/system/agent@.service''
          (GenerateFile (UnitFromConfig user_cfg)),
        Systemctl [''daemon-reload''], Systemctl [''enable'', ''--now'', ''agent@*''],
        Systemctl [''start'', ''agent@*'']]"
    by code_simp
  have d: "issued (start user_world) (snd (doUninstall (sim_os script_noop) user_cfg (start user_world))) =
       [Systemctl [''stop'', ''agent@*''], Systemctl [''disable'', ''agent@*''],
        Remove ''/usr/lib/systemd/system/agent@.service'', Systemctl [''daemon-reload''],
        RemoveAll ''/opt/agent'']"
    by code_simp
  from wildcard_targets[of user_cfg "start user_world" 3 "sim_os script_noop"] a b c d
  show ?thesis by simp
qed

section \<open>Validation comes first\<close>

text \<open>
  Claim C4. A loaded config is validated before any stage runs: \<open>validateConfig\<close> accepts
  it exactly when the application name and the install files are not empty and a
  service has a command. When the install files are empty, or a service is asked for
  and exec is empty, \<open>main\<close> ends fatally in the state it started in: no effect has been
  issued and the world is unchanged, so no file has been copied. A valid config goes
  on to the action.
\<close>

theorem validation_before_stages:
  "((validateConfig cfg = None) =
      (AppName cfg \<noteq> [] \<and> InstallFiles cfg \<noteq> [] \<and> (Systemd cfg \<longrightarrow> Exec cfg \<noteq> [])))
   \<and> (os_load_config os (configPathOf (drop 2 osArgs) ''.qp/config.json'') (world s) = Some cfg
        \<and> (InstallFiles cfg = [] \<or> (Systemd cfg \<and> Exec cfg = []))
        \<longrightarrow> (\<exists>f. main fuel os osArgs s = (Fatal f, s)))
   \<and> (os_load_config os (configPathOf (drop 2 osArgs) ''.qp/config.json'') (world s) = Some cfg
        \<and> validateConfig cfg = None \<and> 2 \<le> length osArgs
        \<and> (osArgs ! 1 = ''build'' \<or> osArgs ! 1 = ''install'' \<or> osArgs ! 1 = ''uninstall'')
        \<longrightarrow> main fuel os osArgs s = runAction fuel os (osArgs ! 1) cfg s)"
proof (intro conjI impI)
  show "(validateConfig cfg = None) =
      (AppName cfg \<noteq> [] \<and> InstallFiles cfg \<noteq> [] \<and> (Systemd cfg \<longrightarrow> Exec cfg \<noteq> []))"
    by (simp add: validateConfig_def)
next
  assume a: "os_load_config os (configPathOf (drop 2 osArgs) ''.qp/config.json'') (world s) = Some cfg
        \<and> (InstallFiles cfg = [] \<or> (Systemd cfg \<and> Exec cfg = []))"
  then have "validateConfig cfg \<noteq> None"
    by (auto simp: validateConfig_def)
  then obtain f where "validateConfig cfg = Some f"
    by blast
  with a show "\<exists>f. main fuel os osArgs s = (Fatal f, s)"
    by (simp add: main_def Let_def)
next
  assume "os_load_config os (configPathOf (drop 2 osArgs) ''.qp/config.json'') (world s) = Some cfg
        \<and> validateConfig cfg = None \<and> 2 \<le> length osArgs
        \<and> (osArgs ! 1 = ''build'' \<or> osArgs ! 1 = ''install'' \<or> osArgs ! 1 = ''uninstall'')"
  then show "main fuel os osArgs s = runAction fuel os (osArgs ! 1) cfg s"
    by (auto simp: main_def Let_def)
qed

theorem validation_before_stages_witness:
  "os_load_config (sim_os script_noop) (configPathOf (drop 2 [''qp'', ''install'']) ''.qp/config.json'')
      (world (start noexec_world)) = Some noexec_cfg
   \<and> Systemd noexec_cfg \<and> Exec noexec_cfg = []
   \<and> main 3 (sim_os script_noop) [''qp'', ''install''] (start noexec_world)
       = (Fatal ExecRequired, start noexec_world)
   \<and> validateConfig user_cfg = None
   \<and> main 3 (sim_os script_noop) [''qp'', ''uninstall''] (start user_world)
       = runAction 3 (sim_os script_noop) ''uninstall'' user_cfg (start user_world)"
proof -
  have a: "os_load_config (sim_os script_noop) (configPathOf (drop 2 [''qp'', ''install'']) ''.qp/config.json'')
      (world (start noexec_world)) = Some noexec_cfg"
    and b: "Systemd noexec_cfg" and c: "Exec noexec_cfg = []"
    and d: "main 3 (sim_os script_noop) [''qp'', ''install''] (start noexec_world)
       = (Fatal ExecRequired, start noexec_world)"
    and e: "validateConfig user_cfg = None"
    and f: "os_load_config (sim_os script_noop) (configPathOf (drop 2 [''qp'', ''uninstall'']) ''.qp/config.json'')
      (world (start user_world)) = Some user_cfg"
    by code_simp+
  from validation_before_stages[of noexec_cfg "sim_os script_noop" "[''qp'', ''install'']"
      "start noexec_world" 3] a b c d
    validation_before_stages[of user_cfg "sim_os script_noop" "[''qp'', ''uninstall'']"
      "start user_world" 3] e f
  show ?thesis by simp
qed

section \<open>Discovering the staging directory\<close>

lemma removeStaging_trace:
  "trace (removeStaging os tmp pre entries s) =
   trace s @ map (\<lambda>e. RemoveAll (Join [tmp, e])) (filter (\<lambda>e. HasPrefix e pre) entries)"
  by (induction entries arbitrary: s) (simp_all add: trace_removeAll)

lemma find_first:
  "(\<forall>x \<in> set pre. \<not> P x) \<Longrightarrow> P e \<Longrightarrow> find P (pre @ e # post) = Some e"
  by (induction pre) simp_all

lemma find_none: "(\<forall>x \<in> set xs. \<not> P x) \<Longrightarrow> find P xs = None"
  by (induction xs) simp_all

text \<open>
  Claim C10. Staging-directory discovery for application \<open>A\<close> returns the first entry of
  the temp directory, in the order the directory is enumerated, whose name starts with
  \<open>qp_build_A_\<close>. The staging-directory names of an application \<open>A_x\<close> start with that
  prefix too, so when such a directory is the first match it becomes the build source of
  \<open>A\<close>. The cleanup after an install of \<open>A\<close> removes every entry of the temp directory
  with the prefix, whichever application made it.
\<close>

theorem staging_prefix_collision:
  "(os_read_dir os (os_temp_dir os w) w = Some (before @ n # after)
      \<and> (\<forall>x \<in> set before. \<not> HasPrefix x (''qp_build_'' @ A @ ''_''))
      \<and> HasPrefix n (''qp_build_'' @ A @ ''_'')
      \<longrightarrow> findTempBuildDir os A w = (Join [os_temp_dir os w, n], None))
   \<and> HasPrefix (stagingPrefix (A @ ''_'' @ x) @ rnd) (''qp_build_'' @ A @ ''_'')
   \<and> (os_read_dir os (os_temp_dir os (world s)) (world s) = Some entries
      \<longrightarrow> issued s (snd (cleanupStaging os cfg s)) =
            map (\<lambda>e. RemoveAll (Join [os_temp_dir os (world s), e]))
              (filter (\<lambda>e. HasPrefix e (''qp_build_'' @ AppName cfg @ ''_'')) entries))"
proof (intro conjI impI)
  assume a: "os_read_dir os (os_temp_dir os w) w = Some (before @ n # after)
      \<and> (\<forall>x \<in> set before. \<not> HasPrefix x (''qp_build_'' @ A @ ''_''))
      \<and> HasPrefix n (''qp_build_'' @ A @ ''_'')"
  then have "find (\<lambda>e. HasPrefix e (stagingPrefix A)) (before @ n # after) = Some n"
    by (intro find_first) (simp_all add: stagingPrefix_def)
  with a show "findTempBuildDir os A w = (Join [os_temp_dir os w, n], None)"
    by (simp add: findTempBuildDir_def Let_def)
next
  show "HasPrefix (stagingPrefix (A @ ''_'' @ x) @ rnd) (''qp_build_'' @ A @ ''_'')"
    by (simp add: HasPrefix_def stagingPrefix_def)
next
  assume "os_read_dir os (os_temp_dir os (world s)) (world s) = Some entries"
  then have "trace (snd (cleanupStaging os cfg s)) =
      trace s @ map (\<lambda>e. RemoveAll (Join [os_temp_dir os (world s), e]))
              (filter (\<lambda>e. HasPrefix e (''qp_build_'' @ AppName cfg @ ''_'')) entries)"
    by (simp add: cleanupStaging_def Let_def removeStaging_trace stagingPrefix_def)
  then show "issued s (snd (cleanupStaging os cfg s)) =
            map (\<lambda>e. RemoveAll (Join [os_temp_dir os (world s), e]))
              (filter (\<lambda>e. HasPrefix e (''qp_build_'' @ AppName cfg @ ''_'')) entries)"
    by (rule issued_append)
qed

theorem staging_prefix_collision_witness:
  "os_read_dir (sim_os script_noop) (os_temp_dir (sim_os script_noop) collide_world) collide_world
     = Some ([] @ ''qp_build_app_extra_7'' # [])
   \<and> HasPrefix ''qp_build_app_extra_7'' (''qp_build_'' @ ''app'' @ ''_'')
   \<and> findTempBuildDir (sim_os script_noop) ''app'' collide_world = (''/tmp/qp_build_app_extra_7'', None)
   \<and> doInstall 3 (sim_os script_noop) app_cfg (start collide_world) =
       (Done,
        \<lparr>trace = [MkdirAll ''/opt/app'', MkdirAll ''/opt/app'',
                  CpCopy ''/tmp/qp_build_app_extra_7/tool'' ''/opt/app/tool'',
                  RemoveAll ''/tmp/qp_build_app_extra_7''],
         world = collide_world\<lparr>sim_files := [(''/opt/app/tool'', ''EXTRA'')],
                   sim_dirs := [''/tmp'', ''/opt'', ''/src'', ''/opt/app'']\<rparr>\<rparr>)"
proof -
  have a: "os_read_dir (sim_os script_noop) (os_temp_dir (sim_os script_noop) collide_world) collide_world
     = Some ([] @ ''qp_build_app_extra_7'' # [])"
    and b: "HasPrefix ''qp_build_app_extra_7'' (''qp_build_'' @ ''app'' @ ''_'')"
    and c: "Join [os_temp_dir (sim_os script_noop) collide_world, ''qp_build_app_extra_7'']
       = ''/tmp/qp_build_app_extra_7''"
    and d: "doInstall 3 (sim_os script_noop) app_cfg (start collide_world) =
       (Done,
        \<lparr>trace = [MkdirAll ''/opt/app'', MkdirAll ''/opt/app'',
                  CpCopy ''/tmp/qp_build_app_extra_7/tool'' ''/opt/app/tool'',
                  RemoveAll ''/tmp/qp_build_app_extra_7''],
         world = collide_world\<lparr>sim_files := [(''/opt/app/tool'', ''EXTRA'')],
                   sim_dirs := [''/tmp'', ''/opt'', ''/src'', ''/opt/app'']\<rparr>\<rparr>)"
    by code_simp+
  from staging_prefix_collision[of "sim_os script_noop" collide_world "[]" "''qp_build_app_extra_7''"
      "[]" "''app''"] a b c d
  show ?thesis by simp
qed

subsection \<open>Absence of the staging directory\<close>

lemma waitStopped_outcome: "fst (waitStopped fuel os u s) = Done \<or> fst (waitStopped fuel os u s) = Polling"
  by (induction fuel arbitrary: s) (simp_all add: case_bool_pair)

lemma stopActive_outcome:
  "fst (stopActive fuel os cfg s) = Done \<or> fst (stopActive fuel os cfg s) = Polling
   \<or> fst (stopActive fuel os cfg s) = Fatal (StopFailed (UnitNameWildcard (UnitFromConfig cfg)))"
  using waitStopped_outcome[of fuel os "UnitNameWildcard (UnitFromConfig cfg)"]
  by (auto simp: stopActive_def Let_def case_bool_pair)

lemma createInstallDir_outcome:
  "fst (createInstallDir os d s) = Done \<or> fst (createInstallDir os d s) = Fatal InstallDirFailed"
  by (simp add: createInstallDir_def case_bool_pair)

lemma installScriptStep_outcome:
  "fst (installScriptStep os cfg d s) = Done
   \<or> fst (installScriptStep os cfg d s) = Fatal (InstallScriptCopyFailed (InstallScript cfg))
   \<or> fst (installScriptStep os cfg d s) = Fatal (ScriptFailed (Join [d, Base (InstallScript cfg)]))"
  by (simp add: installScriptStep_eq Let_def)

lemma startService_outcome:
  "fst (startService os cfg s) = Done
   \<or> (\<exists>err. fst (startService os cfg s) = Fatal (UnitInstallFailed err))
   \<or> fst (startService os cfg s) = Fatal (StartFailed (UnitNameWildcard (UnitFromConfig cfg)))"
  by (cases "fst (installSystemdUnit os cfg s)")
     (auto simp: startService_def Let_def case_bool_pair case_opt_pair)

lemma installEntries_unknown:
  "fst (installEntries os d b entries s) = Fatal (BuildDirUnknown f) \<Longrightarrow>
   b = [] \<and> (\<exists>e \<in> set entries. From e = ''build'' \<and> File e = f)"
proof (induction entries arbitrary: s)
  case Nil
  then show ?case by simp
next
  case (Cons e rest)
  show ?case
  proof (cases "entrySource b e")
    case (Inl x)
    with Cons.prems show ?thesis
      by (auto simp: entrySource_def split: if_splits)
  next
    case (Inr sb)
    obtain src base where sb: "sb = (src, base)" by (cases sb)
    show ?thesis
    proof (cases "exists os src s")
      case False
      with Cons.prems Inr sb show ?thesis by simp
    next
      case True
      obtain r s1 where c: "copyPreserveRelBase os src base d s = (r, s1)"
        by (cases "copyPreserveRelBase os src base d s")
      show ?thesis
      proof (cases r)
        case None
        with Cons.prems Inr sb True c
        have "fst (installEntries os d b rest s1) = Fatal (BuildDirUnknown f)"
          by simp
        from Cons.IH[OF this] show ?thesis by auto
      next
        case (Some err)
        with Cons.prems Inr sb True c show ?thesis by simp
      qed
    qed
  qed
qed

lemma findTempBuildDir_absent:
  assumes "os_read_dir os (os_temp_dir os w) w = None
       \<or> (\<exists>entries. os_read_dir os (os_temp_dir os w) w = Some entries
             \<and> (\<forall>e \<in> set entries. \<not> HasPrefix e (''qp_build_'' @ A @ ''_'')))"
  shows "fst (findTempBuildDir os A w) = []"
  using assms by (auto simp: findTempBuildDir_def Let_def stagingPrefix_def find_none)

lemma doInstall_unknown:
  assumes "fst (doInstall fuel os cfg s) = Fatal (BuildDirUnknown f)"
  shows "\<exists>e \<in> set (InstallFiles cfg). From e = ''build'' \<and> File e = f"
proof -
  define d where "d = Join [InstallPath, AppName cfg]"
  define A where "A = stopActive fuel os cfg"
  define B where "B = createInstallDir os d"
  define C where "C = (\<lambda>s. installEntries os d (fst (findTempBuildDir os (AppName cfg) (world s)))
      (InstallFiles cfg) s)"
  define D where "D = installScriptStep os cfg d"
  define E where "E = startService os cfg"
  define F where "F = cleanupStaging os cfg"
  define s1 where "s1 = snd (A s)"
  define s2 where "s2 = snd (B s1)"
  define s3 where "s3 = snd (C s2)"
  define s4 where "s4 = snd (D s3)"
  define s5 where "s5 = snd (E s4)"
  have run: "doInstall fuel os cfg = andThen A (andThen B (andThen C (andThen D (andThen E F))))"
    by (simp add: doInstall_def Let_def A_def B_def C_def D_def E_def F_def d_def)
  have oA: "fst (A s) \<noteq> Fatal (BuildDirUnknown f)"
    using stopActive_outcome[of fuel os cfg s] unfolding A_def by auto
  have oB: "fst (B s1) \<noteq> Fatal (BuildDirUnknown f)"
    using createInstallDir_outcome[of os d s1] unfolding B_def by auto
  have oD: "fst (D s3) \<noteq> Fatal (BuildDirUnknown f)"
    using installScriptStep_outcome[of os cfg d s3] unfolding D_def by auto
  have oE: "fst (E s4) \<noteq> Fatal (BuildDirUnknown f)"
    using startService_outcome[of os cfg s4] unfolding E_def by auto
  have oF: "fst (F s5) \<noteq> Fatal (BuildDirUnknown f)"
    unfolding F_def by (simp add: cleanupStaging_Done)
  have "fst (C s2) = Fatal (BuildDirUnknown f)"
  proof (rule ccontr)
    assume n: "fst (C s2) \<noteq> Fatal (BuildDirUnknown f)"
    have "fst (andThen E F s4) \<noteq> Fatal (BuildDirUnknown f)"
      using oE oF unfolding s5_def by (simp add: andThen_eq[of E])
    then have "fst (andThen D (andThen E F) s3) \<noteq> Fatal (BuildDirUnknown f)"
      using oD unfolding s4_def by (simp add: andThen_eq[of D])
    then have "fst (andThen C (andThen D (andThen E F)) s2) \<noteq> Fatal (BuildDirUnknown f)"
      using n unfolding s3_def by (simp add: andThen_eq[of C])
    then have "fst (andThen B (andThen C (andThen D (andThen E F))) s1) \<noteq> Fatal (BuildDirUnknown f)"
      using oB unfolding s2_def by (simp add: andThen_eq[of B])
    then have "fst (doInstall fuel os cfg s) \<noteq> Fatal (BuildDirUnknown f)"
      using oA unfolding run s1_def by (simp add: andThen_eq[of A])
    with assms show False by simp
  qed
  then show ?thesis
    unfolding C_def using installEntries_unknown by blast
qed

lemma doInstall_absent:
  assumes a: "stopActive fuel os cfg s = (Done, s1)"
    and b: "createInstallDir os (Join [InstallPath, AppName cfg]) s1 = (Done, s2)"
    and n: "fst (findTempBuildDir os (AppName cfg) (world s2)) = []"
  shows "doInstall fuel os cfg s =
     andThen (installEntries os (Join [InstallPath, AppName cfg]) [] (InstallFiles cfg))
       (andThen (installScriptStep os cfg (Join [InstallPath, AppName cfg]))
         (andThen (startService os cfg) (cleanupStaging os cfg))) s2"
proof -
  define d where "d = Join [InstallPath, AppName cfg]"
  define K where "K = andThen (installScriptStep os cfg d) (andThen (startService os cfg) (cleanupStaging os cfg))"
  have "doInstall fuel os cfg s =
      andThen (\<lambda>s. installEntries os d (fst (findTempBuildDir os (AppName cfg) (world s)))
                 (InstallFiles cfg) s) K s2"
    using a b unfolding doInstall_def Let_def K_def d_def
    by (simp add: andThen_eq[of "stopActive fuel os cfg"]
          andThen_eq[of "createInstallDir os (Join [InstallPath, AppName cfg])"])
  also have "\<dots> = andThen (installEntries os d [] (InstallFiles cfg)) K s2"
    using n by (simp add: andThen_eq[of _ K])
  finally show ?thesis
    unfolding K_def d_def .
qed

text \<open>
  Claim C8. When the temp directory cannot be read or holds no entry with the
  application's prefix, discovery yields the empty string and reports an error that
  \<open>doInstall\<close> drops: once the service is stopped and the install root created, the
  install stage goes on with the empty build directory through the install files, the
  install script, the service and the cleanup. With the empty build directory, entries
  of provenance \<open>cwd\<close> are installed exactly as with any build directory; the stage ends
  with "build directory unknown" only at an entry of provenance \<open>build\<close>, and does so
  when it reaches one.
\<close>

theorem staging_absence_tolerated:
  "((os_read_dir os (os_temp_dir os w) w = None
       \<or> (\<exists>entries. os_read_dir os (os_temp_dir os w) w = Some entries
             \<and> (\<forall>e \<in> set entries. \<not> HasPrefix e (''qp_build_'' @ A @ ''_''))))
      \<longrightarrow> fst (findTempBuildDir os A w) = [])
   \<and> ((\<forall>e \<in> set entries. From e = ''cwd'')
      \<longrightarrow> installEntries os d [] entries s = installEntries os d b entries s)
   \<and> (fst (installEntries os d b entries s) = Fatal (BuildDirUnknown f)
      \<longrightarrow> b = [] \<and> (\<exists>e \<in> set entries. From e = ''build'' \<and> File e = f))
   \<and> (From e = ''build'' \<longrightarrow>
        installEntries os d [] (e # rest) s = (Fatal (BuildDirUnknown (File e)), s))
   \<and> (stopActive fuel os cfg s = (Done, s1)
        \<and> createInstallDir os (Join [InstallPath, AppName cfg]) s1 = (Done, s2)
        \<and> (os_read_dir os (os_temp_dir os (world s2)) (world s2) = None
            \<or> (\<exists>entries. os_read_dir os (os_temp_dir os (world s2)) (world s2) = Some entries
                  \<and> (\<forall>e \<in> set entries. \<not> HasPrefix e (''qp_build_'' @ AppName cfg @ ''_''))))
      \<longrightarrow> doInstall fuel os cfg s =
            andThen (installEntries os (Join [InstallPath, AppName cfg]) [] (InstallFiles cfg))
              (andThen (installScriptStep os cfg (Join [InstallPath, AppName cfg]))
                (andThen (startService os cfg) (cleanupStaging os cfg))) s2)
   \<and> (fst (doInstall fuel os cfg s) = Fatal (BuildDirUnknown f)
      \<longrightarrow> (\<exists>e \<in> set (InstallFiles cfg). From e = ''build'' \<and> File e = f))"
proof -
  have 1: "fst (findTempBuildDir os A w) = []"
    if "os_read_dir os (os_temp_dir os w) w = None
       \<or> (\<exists>entries. os_read_dir os (os_temp_dir os w) w = Some entries
             \<and> (\<forall>e \<in> set entries. \<not> HasPrefix e (''qp_build_'' @ A @ ''_'')))"
    using that by (rule findTempBuildDir_absent)
  have 2: "installEntries os d [] entries s = installEntries os d b entries s"
    if "\<forall>e \<in> set entries. From e = ''cwd''"
    using that
    by (induction entries arbitrary: s)
       (auto simp: entrySource_def split: option.splits prod.splits)
  have 3: "b = [] \<and> (\<exists>e \<in> set entries. From e = ''build'' \<and> File e = f)"
    if "fst (installEntries os d b entries s) = Fatal (BuildDirUnknown f)"
    using that by (rule installEntries_unknown)
  have 4: "installEntries os d [] (e # rest) s = (Fatal (BuildDirUnknown (File e)), s)"
    if "From e = ''build''"
    using that by (simp add: entrySource_def)
  have 5: "doInstall fuel os cfg s =
            andThen (installEntries os (Join [InstallPath, AppName cfg]) [] (InstallFiles cfg))
              (andThen (installScriptStep os cfg (Join [InstallPath, AppName cfg]))
                (andThen (startService os cfg) (cleanupStaging os cfg))) s2"
    if h: "stopActive fuel os cfg s = (Done, s1)
        \<and> createInstallDir os (Join [InstallPath, AppName cfg]) s1 = (Done, s2)
        \<and> (os_read_dir os (os_temp_dir os (world s2)) (world s2) = None
            \<or> (\<exists>entries. os_read_dir os (os_temp_dir os (world s2)) (world s2) = Some entries
                  \<and> (\<forall>e \<in> set entries. \<not> HasPrefix e (''qp_build_'' @ AppName cfg @ ''_''))))"
  proof -
    from h have "fst (findTempBuildDir os (AppName cfg) (world s2)) = []"
      by (intro findTempBuildDir_absent) blast
    with h show ?thesis
      by (intro doInstall_absent[where ?s1.0 = s1]) simp_all
  qed
  have 6: "\<exists>e \<in> set (InstallFiles cfg). From e = ''build'' \<and> File e = f"
    if "fst (doInstall fuel os cfg s) = Fatal (BuildDirUnknown f)"
    using that by (rule doInstall_unknown)
  from 1 2 3 4 5 6 show ?thesis by blast
qed

theorem staging_absence_tolerated_witness:
  "os_read_dir (sim_os script_noop) (os_temp_dir (sim_os script_noop) notmp_world) notmp_world = None
   \<and> findTempBuildDir (sim_os script_noop) ''app'' notmp_world = ([], Some ReadDirFailed)
   \<and> stopActive 3 (sim_os script_noop) cwd_cfg (start notmp_world) = (Done, start notmp_world)
   \<and> createInstallDir (sim_os script_noop) (Join [InstallPath, AppName cwd_cfg]) (start notmp_world) =
       (Done,
        \<lparr>trace = [MkdirAll ''/opt/app''],
         world = notmp_world\<lparr>sim_dirs := [''/tmp'', ''/opt'', ''/src'', ''/src/bin'', ''/opt/app'']\<rparr>\<rparr>)
   \<and> os_read_dir (sim_os script_noop) ''/var/tmp''
         (notmp_world\<lparr>sim_dirs := [''/tmp'', ''/opt'', ''/src'', ''/src/bin'', ''/opt/app'']\<rparr>) = None
   \<and> doInstall 3 (sim_os script_noop) cwd_cfg (start notmp_world) =
       andThen (installEntries (sim_os script_noop) (Join [InstallPath, AppName cwd_cfg]) []
                  (InstallFiles cwd_cfg))
         (andThen (installScriptStep (sim_os script_noop) cwd_cfg (Join [InstallPath, AppName cwd_cfg]))
           (andThen (startService (sim_os script_noop) cwd_cfg)
                    (cleanupStaging (sim_os script_noop) cwd_cfg)))
         \<lparr>trace = [MkdirAll ''/opt/app''],
          world = notmp_world\<lparr>sim_dirs := [''/tmp'', ''/opt'', ''/src'', ''/src/bin'', ''/opt/app'']\<rparr>\<rparr>
   \<and> doInstall 3 (sim_os script_noop) cwd_cfg (start notmp_world) =
       (Done,
        \<lparr>trace = [MkdirAll ''/opt/app'', MkdirAll ''/opt/app/bin'',
                  CpCopy ''bin/tool'' ''/opt/app/bin/tool''],
         world = notmp_world\<lparr>sim_files := [(''/src/bin/tool'', ''TOOL''), (''/opt/app/bin/tool'', ''TOOL'')],
                   sim_dirs := [''/tmp'', ''/opt'', ''/src'', ''/src/bin'', ''/opt/app'', ''/opt/app/bin'']\<rparr>\<rparr>)
   \<and> os_read_dir (sim_os script_noop) (os_temp_dir (sim_os script_noop) foreign_world) foreign_world =
       Some [''notes.txt'', ''qp_build_other_3'']
   \<and> \<not> HasPrefix ''notes.txt'' (''qp_build_'' @ ''app'' @ ''_'')
   \<and> \<not> HasPrefix ''qp_build_other_3'' (''qp_build_'' @ ''app'' @ ''_'')
   \<and> findTempBuildDir (sim_os script_noop) ''app'' foreign_world = ([], Some BuildDirNotFound)
   \<and> doInstall 3 (sim_os script_noop) cwd_cfg (start foreign_world) =
       andThen (installEntries (sim_os script_noop) (Join [InstallPath, AppName cwd_cfg]) []
                  (InstallFiles cwd_cfg))
         (andThen (installScriptStep (sim_os script_noop) cwd_cfg (Join [InstallPath, AppName cwd_cfg]))
           (andThen (startService (sim_os script_noop) cwd_cfg)
                    (cleanupStaging (sim_os script_noop) cwd_cfg)))
         \<lparr>trace = [MkdirAll ''/opt/app''],
          world = foreign_world\<lparr>sim_dirs := [''/tmp'', ''/opt'', ''/src'', ''/src/bin'',
                                               ''/tmp/qp_build_other_3'', ''/opt/app'']\<rparr>\<rparr>
   \<and> doInstall 3 (sim_os script_noop) cwd_cfg (start foreign_world) =
       (Done,
        \<lparr>trace = [MkdirAll ''/opt/app'', MkdirAll ''/opt/app/bin'',
                  CpCopy ''bin/tool'' ''/opt/app/bin/tool''],
         world = foreign_world\<lparr>sim_files := [(''/src/bin/tool'', ''TOOL''), (''/tmp/notes.txt'', ''N''),
                                  (''/opt/app/bin/tool'', ''TOOL'')],
                   sim_dirs := [''/tmp'', ''/opt'', ''/src'', ''/src/bin'', ''/tmp/qp_build_other_3'',
                                ''/opt/app'', ''/opt/app/bin'']\<rparr>\<rparr>)
   \<and> From \<lparr>File = ''bin/tool'', From = ''cwd''\<rparr> = ''cwd''
   \<and> From \<lparr>File = ''tool'', From = ''build''\<rparr> = ''build''
   \<and> doInstall 3 (sim_os script_noop) app_cfg (start notmp_world) =
       (Fatal (BuildDirUnknown ''tool''),
        \<lparr>trace = [MkdirAll ''/opt/app''],
         world = notmp_world\<lparr>sim_dirs := [''/tmp'', ''/opt'', ''/src'', ''/src/bin'', ''/opt/app'']\<rparr>\<rparr>)"
proof -
  let ?os = "sim_os script_noop"
  let ?d = "Join [InstallPath, AppName cwd_cfg]"
  let ?n2 = "\<lparr>trace = [MkdirAll ''/opt/app''],
         world = notmp_world\<lparr>sim_dirs := [''/tmp'', ''/opt'', ''/src'', ''/src/bin'', ''/opt/app'']\<rparr>\<rparr>"
  let ?f2 = "\<lparr>trace = [MkdirAll ''/opt/app''],
          world = foreign_world\<lparr>sim_dirs := [''/tmp'', ''/opt'', ''/src'', ''/src/bin'',
                                               ''/tmp/qp_build_other_3'', ''/opt/app'']\<rparr>\<rparr>"
  have n_read: "os_read_dir ?os (os_temp_dir ?os notmp_world) notmp_world = None"
    and n_find: "findTempBuildDir ?os ''app'' notmp_world = ([], Some ReadDirFailed)"
    and n_stop: "stopActive 3 ?os cwd_cfg (start notmp_world) = (Done, start notmp_world)"
    and n_mk: "createInstallDir ?os ?d (start notmp_world) = (Done, ?n2)"
    and n_read2: "os_read_dir ?os (os_temp_dir ?os (world ?n2)) (world ?n2) = None"
    and n_read3: "os_read_dir ?os ''/var/tmp''
         (notmp_world\<lparr>sim_dirs := [''/tmp'', ''/opt'', ''/src'', ''/src/bin'', ''/opt/app'']\<rparr>) = None"
    and n_run: "doInstall 3 ?os cwd_cfg (start notmp_world) =
       (Done,
        \<lparr>trace = [MkdirAll ''/opt/app'', MkdirAll ''/opt/app/bin'',
                  CpCopy ''bin/tool'' ''/opt/app/bin/tool''],
         world = notmp_world\<lparr>sim_files := [(''/src/bin/tool'', ''TOOL''), (''/opt/app/bin/tool'', ''TOOL'')],
                   sim_dirs := [''/tmp'', ''/opt'', ''/src'', ''/src/bin'', ''/opt/app'', ''/opt/app/bin'']\<rparr>\<rparr>)"
    by code_simp+
  have f_read: "os_read_dir ?os (os_temp_dir ?os foreign_world) foreign_world =
       Some [''notes.txt'', ''qp_build_other_3'']"
    and f_pre1: "\<not> HasPrefix ''notes.txt'' (''qp_build_'' @ ''app'' @ ''_'')"
    and f_pre2: "\<not> HasPrefix ''qp_build_other_3'' (''qp_build_'' @ ''app'' @ ''_'')"
    and f_pre3: "\<not> HasPrefix ''notes.txt'' (''qp_build_'' @ AppName cwd_cfg @ ''_'')"
    and f_pre4: "\<not> HasPrefix ''qp_build_other_3'' (''qp_build_'' @ AppName cwd_cfg @ ''_'')"
    and f_find: "findTempBuildDir ?os ''app'' foreign_world = ([], Some BuildDirNotFound)"
    and f_stop: "stopActive 3 ?os cwd_cfg (start foreign_world) = (Done, start foreign_world)"
    and f_mk: "createInstallDir ?os ?d (start foreign_world) = (Done, ?f2)"
    and f_read2: "os_read_dir ?os (os_temp_dir ?os (world ?f2)) (world ?f2) =
       Some [''notes.txt'', ''qp_build_other_3'']"
    and f_run: "doInstall 3 ?os cwd_cfg (start foreign_world) =
       (Done,
        \<lparr>trace = [MkdirAll ''/opt/app'', MkdirAll ''/opt/app/bin'',
                  CpCopy ''bin/tool'' ''/opt/app/bin/tool''],
         world = foreign_world\<lparr>sim_files := [(''/src/bin/tool'', ''TOOL''), (''/tmp/notes.txt'', ''N''),
                                  (''/opt/app/bin/tool'', ''TOOL'')],
                   sim_dirs := [''/tmp'', ''/opt'', ''/src'', ''/src/bin'', ''/tmp/qp_build_other_3'',
                                ''/opt/app'', ''/opt/app/bin'']\<rparr>\<rparr>)"
    by code_simp+
  have b_run: "doInstall 3 ?os app_cfg (start notmp_world) = (Fatal (BuildDirUnknown ''tool''), ?n2)"
    by code_simp
  note unreadable = staging_absence_tolerated[where os = ?os and w = notmp_world and A = "''app''"
      and entries = "[\<lparr>File = ''bin/tool'', From = ''cwd''\<rparr>]"
      and e = "\<lparr>File = ''tool'', From = ''build''\<rparr>" and rest = "[]"
      and d = ?d and b = "[]" and f = "''tool''"
      and fuel = 3 and cfg = cwd_cfg and s = "start notmp_world"
      and ?s1.0 = "start notmp_world" and ?s2.0 = ?n2]
  note unmatched = staging_absence_tolerated[where os = ?os and w = foreign_world and A = "''app''"
      and entries = "[\<lparr>File = ''bin/tool'', From = ''cwd''\<rparr>]"
      and e = "\<lparr>File = ''tool'', From = ''build''\<rparr>" and rest = "[]"
      and d = ?d and b = "[]" and f = "''tool''"
      and fuel = 3 and cfg = cwd_cfg and s = "start foreign_world"
      and ?s1.0 = "start foreign_world" and ?s2.0 = ?f2]
  have n_cont: "doInstall 3 ?os cwd_cfg (start notmp_world) =
       andThen (installEntries ?os ?d [] (InstallFiles cwd_cfg))
         (andThen (installScriptStep ?os cwd_cfg ?d)
           (andThen (startService ?os cwd_cfg) (cleanupStaging ?os cwd_cfg))) ?n2"
    using unreadable n_stop n_mk n_read2 by blast
  have f_all: "\<forall>e \<in> set [''notes.txt'', ''qp_build_other_3''].
                 \<not> HasPrefix e (''qp_build_'' @ AppName cwd_cfg @ ''_'')"
    using f_pre3 f_pre4 by simp
  have f_cont: "doInstall 3 ?os cwd_cfg (start foreign_world) =
       andThen (installEntries ?os ?d [] (InstallFiles cwd_cfg))
         (andThen (installScriptStep ?os cwd_cfg ?d)
           (andThen (startService ?os cwd_cfg) (cleanupStaging ?os cwd_cfg))) ?f2"
    using unmatched f_stop f_mk f_read2 f_all by blast
  have p1: "From \<lparr>File = ''bin/tool'', From = ''cwd''\<rparr> = ''cwd''"
    and p2: "From \<lparr>File = ''tool'', From = ''build''\<rparr> = ''build''"
    by simp_all
  from n_read n_find n_stop n_mk n_read3 n_cont n_run f_read f_pre1 f_pre2 f_find f_cont f_run
    p1 p2 b_run
  show ?thesis by (intro conjI)
qed

section \<open>A failing stop ends the install\<close>

text \<open>
  Claim C1, as stated, fails: in \<open>stubborn_world\<close> the unit is active and the stop
  subcommand fails; \<open>doInstall\<close> ends fatally right after it, with nothing installed.
\<close>

theorem stop_failure_counterexample:
  "fst (os_systemctl (sim_os script_noop) [''is-active'', ''--quiet'', ''agent@*''] stubborn_world) = True
   \<and> fst (os_systemctl (sim_os script_noop) [''stop'', ''agent@*''] stubborn_world) = False
   \<and> doInstall 3 (sim_os script_noop) user_cfg (start stubborn_world) =
       (Fatal (StopFailed ''agent@*''),
        \<lparr>trace = [Systemctl [''is-active'', ''--quiet'', ''agent@*''],
                  Systemctl [''stop'', ''agent@*'']],
         world = stubborn_world\<rparr>)"
  by code_simp

text \<open>
  Claim C1, amended. In a service-managed install the only service-manager failure that
  is tolerated is that of the is-active query: it means "not active", nothing is stopped
  and the stage goes on. When the query succeeds and the stop subcommand fails, the
  install stage ends fatally there, before the install root is touched. On the
  enable/start path every failure is fatal: writing the unit, daemon-reload, enable and
  start.
\<close>

theorem stop_failure_is_fatal:
  "Systemd cfg \<longrightarrow>
     (let W = UnitNameWildcard (UnitFromConfig cfg);
          q = systemctl os [''is-active'', ''--quiet'', W] s;
          p = systemctl os [''stop'', W] (snd q)
      in (\<not> fst q \<longrightarrow> stopActive fuel os cfg s = (Done, snd q))
         \<and> (fst q \<and> \<not> fst p \<longrightarrow> doInstall fuel os cfg s = (Fatal (StopFailed W), snd p)))
     \<and> (let u = UnitFromConfig cfg;
             W = UnitNameWildcard u;
             t1 = writeFile os (UnitPath u) (GenerateFile u) s;
             t2 = systemctl os [''daemon-reload''] (snd t1);
             t3 = systemctl os [''enable'', ''--now'', W] (snd t2);
             t4 = systemctl os [''start'', W] (snd t3)
         in startService os cfg s =
              (if \<not> fst t1 then (Fatal (UnitInstallFailed UnitWriteFailed), snd t1)
               else if \<not> fst t2
                 then (Fatal (UnitInstallFailed (UnitCommandFailed [''systemctl'', ''daemon-reload''])), snd t2)
               else if \<not> fst t3
                 then (Fatal (UnitInstallFailed
                         (UnitCommandFailed [''systemctl'', ''enable'', ''--now'', W])), snd t3)
               else if \<not> fst t4 then (Fatal (StartFailed W), snd t4)
               else (Done, snd t4)))"
proof (intro impI conjI)
  assume sd: "Systemd cfg"
  let ?W = "UnitNameWildcard (UnitFromConfig cfg)"
  let ?q = "systemctl os [''is-active'', ''--quiet'', ?W] s"
  let ?p = "systemctl os [''stop'', ?W] (snd ?q)"
  have a: "stopActive fuel os cfg s = (Done, snd ?q)" if "\<not> fst ?q"
    using that sd by (simp add: stopActive_def case_bool_pair Let_def)
  have "stopActive fuel os cfg s = (Fatal (StopFailed ?W), snd ?p)" if "fst ?q \<and> \<not> fst ?p"
    using that sd by (simp add: stopActive_def case_bool_pair Let_def)
  then have b: "doInstall fuel os cfg s = (Fatal (StopFailed ?W), snd ?p)" if "fst ?q \<and> \<not> fst ?p"
    using that by (simp add: doInstall_def andThen_eq Let_def)
  from a b show "let W = ?W; q = systemctl os [''is-active'', ''--quiet'', W] s;
          p = systemctl os [''stop'', W] (snd q)
      in (\<not> fst q \<longrightarrow> stopActive fuel os cfg s = (Done, snd q))
         \<and> (fst q \<and> \<not> fst p \<longrightarrow> doInstall fuel os cfg s = (Fatal (StopFailed W), snd p))"
    by (simp add: Let_def)
  from sd show "let u = UnitFromConfig cfg;
             W = UnitNameWildcard u;
             t1 = writeFile os (UnitPath u) (GenerateFile u) s;
             t2 = systemctl os [''daemon-reload''] (snd t1);
             t3 = systemctl os [''enable'', ''--now'', W] (snd t2);
             t4 = systemctl os [''start'', W] (snd t3)
         in startService os cfg s =
              (if \<not> fst t1 then (Fatal (UnitInstallFailed UnitWriteFailed), snd t1)
               else if \<not> fst t2
                 then (Fatal (UnitInstallFailed (UnitCommandFailed [''systemctl'', ''daemon-reload''])), snd t2)
               else if \<not> fst t3
                 then (Fatal (UnitInstallFailed
                         (UnitCommandFailed [''systemctl'', ''enable'', ''--now'', W])), snd t3)
               else if \<not> fst t4 then (Fatal (StartFailed W), snd t4)
               else (Done, snd t4))"
    by (simp add: startService_def installSystemdUnit_def Let_def case_bool_pair case_opt_pair)
qed

theorem stop_failure_is_fatal_witness:
  "Systemd user_cfg
   \<and> fst (systemctl (sim_os script_noop) [''is-active'', ''--quiet'', ''agent@*''] (start stubborn_world))
   \<and> \<not> fst (systemctl (sim_os script_noop) [''stop'', ''agent@*'']
          (snd (systemctl (sim_os script_noop) [''is-active'', ''--quiet'', ''agent@*''] (start stubborn_world))))
   \<and> fst (doInstall 3 (sim_os script_noop) user_cfg (start stubborn_world)) = Fatal (StopFailed ''agent@*'')
   \<and> fst (startService (sim_os script_noop) user_cfg (start stubborn_world)) = Done"
proof -
  have a: "Systemd user_cfg"
    and w: "UnitNameWildcard (UnitFromConfig user_cfg) = ''agent@*''"
    and b: "fst (systemctl (sim_os script_noop) [''is-active'', ''--quiet'', ''agent@*''] (start stubborn_world))"
    and c: "\<not> fst (systemctl (sim_os script_noop) [''stop'', ''agent@*'']
          (snd (systemctl (sim_os script_noop) [''is-active'', ''--quiet'', ''agent@*''] (start stubborn_world))))"
    and d: "fst (startService (sim_os script_noop) user_cfg (start stubborn_world)) = Done"
    by code_simp+
  from stop_failure_is_fatal[of user_cfg "sim_os script_noop" "start stubborn_world" 3] a w b c d
  show ?thesis by (simp add: Let_def)
qed

section \<open>Uninstall removes the install root after the script step\<close>

lemma uninstallScriptStep_eq:
  "uninstallScriptStep os cfg d s =
     (if UninstallScript cfg = [] then (Done, s)
      else
        let sp = Join [d, Base (UninstallScript cfg)];
            st = (if exists os sp s then (True, s) else cpCopy os (GetUninstallScript cfg) sp s);
            b = bash os sp d (snd st)
        in if \<not> fst st then (Fatal (UninstallScriptCopyFailed (UninstallScript cfg)), snd st)
           else if \<not> fst b then (Fatal (ScriptFailed sp), snd b)
           else (Done, snd b))"
  by (simp add: uninstallScriptStep_def runScript_def Let_def case_bool_pair)

lemma not_removeAll_teardown: "teardownEvent cfg e \<Longrightarrow> \<not> isRemoveAll e"
  by (auto simp: teardownEvent_def)

lemma not_removeAll_file: "fileEvent e \<Longrightarrow> \<not> isRemoveAll e"
  by (cases e) auto

lemma uninstall_prefix_ext:
  "extends (\<lambda>e. \<not> isRemoveAll e) s
     (snd (uninstallScriptStep os cfg d (teardownService os cfg s)))"
proof -
  have "extends (\<lambda>e. \<not> isRemoveAll e) s (teardownService os cfg s)"
    by (rule extends_mono[OF teardownService_ext[OF extends_refl]]) (rule not_removeAll_teardown)
  moreover have "extends (\<lambda>e. \<not> isRemoveAll e) (teardownService os cfg s)
     (snd (uninstallScriptStep os cfg d (teardownService os cfg s)))"
    by (rule extends_mono[OF uninstallScriptStep_ext[OF extends_refl]]) (rule not_removeAll_file)
  ultimately show ?thesis
    by (rule extends_trans)
qed

lemma uninstallScriptStep_ran:
  assumes "fst (uninstallScriptStep os cfg d s1) = Done" and "UninstallScript cfg \<noteq> []"
  shows "Bash (Join [d, Base (UninstallScript cfg)]) d
           \<in> set (issued s1 (snd (uninstallScriptStep os cfg d s1)))"
proof -
  let ?sp = "Join [d, Base (UninstallScript cfg)]"
  let ?st = "if exists os ?sp s1 then (True, s1) else cpCopy os (GetUninstallScript cfg) ?sp s1"
  from assms have s2: "snd (uninstallScriptStep os cfg d s1) = snd (bash os ?sp d (snd ?st))"
    by (simp add: uninstallScriptStep_eq Let_def split: if_splits)
  have "\<exists>evs. trace (snd ?st) = trace s1 @ evs"
    by (simp add: trace_cpCopy)
  then obtain evs where "trace (snd ?st) = trace s1 @ evs"
    by blast
  then have "trace (snd (bash os ?sp d (snd ?st))) = trace s1 @ (evs @ [Bash ?sp d])"
    by (simp add: trace_bash)
  then have "issued s1 (snd (bash os ?sp d (snd ?st))) = evs @ [Bash ?sp d]"
    by (rule issued_append)
  with s2 show ?thesis
    by simp
qed

lemma uninstallScriptStep_outcome:
  "fst (uninstallScriptStep os cfg d s) = Done
   \<or> fst (uninstallScriptStep os cfg d s) = Fatal (UninstallScriptCopyFailed (UninstallScript cfg))
   \<or> fst (uninstallScriptStep os cfg d s) = Fatal (ScriptFailed (Join [d, Base (UninstallScript cfg)]))"
  by (simp add: uninstallScriptStep_eq Let_def)

lemma doUninstall_eq:
  "doUninstall os cfg s =
     (let d = Join [InstallPath, AppName cfg];
          r = uninstallScriptStep os cfg d (teardownService os cfg s)
      in if fst r = Done then (Done, snd (removeAllPath os d (snd r))) else r)"
  by (simp add: doUninstall_def andThen_eq Let_def)

text \<open>
  Claim C3, as stated, fails. In \<open>installed_world\<close> an uninstall script is configured and
  is absent, at its destination and in the scripts directory: staging it fails,
  \<open>doUninstall\<close> ends fatally and the install root stays. In \<open>scripted_world\<close> the script
  is there and exits with a non-zero status: the install root stays as well.
\<close>

theorem uninstall_removal_counterexample:
  "os_stat (sim_os script_noop) ''.qp/cleanup.sh'' installed_world = StatNotExist
   \<and> fst (doUninstall (sim_os script_noop) rm_cfg (start installed_world))
       = Fatal (UninstallScriptCopyFailed ''cleanup.sh'')
   \<and> trace (snd (doUninstall (sim_os script_noop) rm_cfg (start installed_world)))
       = [Systemctl [''stop'', ''agent@*''], Systemctl [''disable'', ''agent@*''],
          Remove ''/usr/lib/systemd/system/agent@.service'', Systemctl [''daemon-reload''],
          CpCopy ''.qp/cleanup.sh'' ''/opt/agent/cleanup.sh'']
   \<and> os_stat (sim_os script_noop) ''/opt/agent/agent''
        (world (snd (doUninstall (sim_os script_noop) rm_cfg (start installed_world)))) = StatOk
   \<and> fst (doUninstall (sim_os script_fail) rm_cfg (start scripted_world))
       = Fatal (ScriptFailed ''/opt/agent/cleanup.sh'')
   \<and> os_stat (sim_os script_fail) ''/opt/agent/agent''
        (world (snd (doUninstall (sim_os script_fail) rm_cfg (start scripted_world)))) = StatOk"
  by code_simp

text \<open>
  Claim C3, amended. Uninstall removes the install root exactly when the script step
  does not end fatally. With no uninstall script configured it always does, whatever
  the service manager answers. When it completes, the removal of the install root is
  its last effect, the only removal of a tree, and comes after the script has run.
  When a configured script cannot be staged or exits with a non-zero status, uninstall
  ends fatally and has removed no tree.
\<close>

theorem uninstall_removal:
  "(UninstallScript cfg = [] \<longrightarrow> fst (doUninstall os cfg s) = Done)
   \<and> (fst (doUninstall os cfg s) = Done \<longrightarrow>
        (\<exists>evs. issued s (snd (doUninstall os cfg s)) = evs @ [RemoveAll (Join [InstallPath, AppName cfg])]
           \<and> list_all (\<lambda>e. \<not> isRemoveAll e) evs
           \<and> (UninstallScript cfg \<noteq> [] \<longrightarrow>
                Bash (Join [Join [InstallPath, AppName cfg], Base (UninstallScript cfg)])
                     (Join [InstallPath, AppName cfg]) \<in> set evs)))
   \<and> (fst (doUninstall os cfg s) \<noteq> Done \<longrightarrow>
        (fst (doUninstall os cfg s) = Fatal (UninstallScriptCopyFailed (UninstallScript cfg))
         \<or> fst (doUninstall os cfg s)
              = Fatal (ScriptFailed (Join [Join [InstallPath, AppName cfg], Base (UninstallScript cfg)])))
        \<and> list_all (\<lambda>e. \<not> isRemoveAll e) (issued s (snd (doUninstall os cfg s))))"
proof -
  let ?d = "Join [InstallPath, AppName cfg]"
  let ?s1 = "teardownService os cfg s"
  let ?r = "uninstallScriptStep os cfg ?d ?s1"
  have ext: "extends (\<lambda>e. \<not> isRemoveAll e) s (snd ?r)"
    by (rule uninstall_prefix_ext)
  have ext1: "extends (teardownEvent cfg) s ?s1"
    by (rule teardownService_ext[OF extends_refl])
  have ext2: "extends fileEvent ?s1 (snd ?r)"
    by (rule uninstallScriptStep_ext[OF extends_refl])
  have 1: "fst (doUninstall os cfg s) = Done" if "UninstallScript cfg = []"
    using that by (simp add: doUninstall_eq uninstallScriptStep_eq Let_def)
  have 2: "\<exists>evs. issued s (snd (doUninstall os cfg s)) = evs @ [RemoveAll ?d]
           \<and> list_all (\<lambda>e. \<not> isRemoveAll e) evs
           \<and> (UninstallScript cfg \<noteq> [] \<longrightarrow> Bash (Join [?d, Base (UninstallScript cfg)]) ?d \<in> set evs)"
    if dn: "fst (doUninstall os cfg s) = Done"
  proof -
    from dn have r: "fst ?r = Done"
      by (simp add: doUninstall_eq Let_def split: if_splits)
    then have fin: "snd (doUninstall os cfg s) = snd (removeAllPath os ?d (snd ?r))"
      by (simp add: doUninstall_eq Let_def)
    from extends_issued[OF ext] have tr: "trace (snd ?r) = trace s @ issued s (snd ?r)"
      and na: "list_all (\<lambda>e. \<not> isRemoveAll e) (issued s (snd ?r))"
      by blast+
    from tr have "trace (snd (removeAllPath os ?d (snd ?r))) = trace s @ (issued s (snd ?r) @ [RemoveAll ?d])"
      by (simp add: trace_removeAll)
    then have iss: "issued s (snd (doUninstall os cfg s)) = issued s (snd ?r) @ [RemoveAll ?d]"
      unfolding fin by (rule issued_append)
    have "Bash (Join [?d, Base (UninstallScript cfg)]) ?d \<in> set (issued s (snd ?r))"
      if "UninstallScript cfg \<noteq> []"
    proof -
      from uninstallScriptStep_ran[OF r that]
      have "Bash (Join [?d, Base (UninstallScript cfg)]) ?d \<in> set (issued ?s1 (snd ?r))" .
      moreover from issued_trans[OF ext1 ext2]
      have "issued s (snd ?r) = issued s ?s1 @ issued ?s1 (snd ?r)" .
      ultimately show ?thesis by simp
    qed
    with iss na show ?thesis by blast
  qed
  have 3: "(fst (doUninstall os cfg s) = Fatal (UninstallScriptCopyFailed (UninstallScript cfg))
         \<or> fst (doUninstall os cfg s) = Fatal (ScriptFailed (Join [?d, Base (UninstallScript cfg)])))
        \<and> list_all (\<lambda>e. \<not> isRemoveAll e) (issued s (snd (doUninstall os cfg s)))"
    if nd: "fst (doUninstall os cfg s) \<noteq> Done"
  proof -
    from nd have r: "fst ?r \<noteq> Done"
      by (auto simp: doUninstall_eq Let_def split: if_splits)
    then have fin: "doUninstall os cfg s = ?r"
      by (simp add: doUninstall_eq Let_def)
    from uninstallScriptStep_outcome[of os cfg ?d ?s1] r extends_issued[OF ext]
    show ?thesis
      unfolding fin by blast
  qed
  from 1 2 3 show ?thesis by blast
qed

theorem uninstall_removal_witness:
  "UninstallScript user_cfg = []
   \<and> doUninstall (sim_os script_noop) user_cfg (start installed_world) =
       (Done,
        \<lparr>trace = [Systemctl [''stop'', ''agent@*''], Systemctl [''disable'', ''agent@*''],
                  Remove ''/usr/lib/systemd/system/agent@.service'', Systemctl [''daemon-reload'']]
                 @ [RemoveAll ''/opt/agent''],
         world = installed_world\<lparr>sim_files := [(''/src/agent'', ''ELF'')],
                   sim_dirs := [''/tmp'', ''/opt'', ''/src''], sim_service := Stopping 0\<rparr>\<rparr>)
   \<and> UninstallScript rm_cfg \<noteq> []
   \<and> fst (doUninstall (sim_os script_noop) rm_cfg (start scripted_world)) = Done
   \<and> issued (start scripted_world) (snd (doUninstall (sim_os script_noop) rm_cfg (start scripted_world)))
       = [Systemctl [''stop'', ''agent@*''], Systemctl [''disable'', ''agent@*''],
          Remove ''/usr/lib/systemd/system/agent@.service'', Systemctl [''daemon-reload''],
          CpCopy ''.qp/cleanup.sh'' ''/opt/agent/cleanup.sh'',
          Bash ''/opt/agent/cleanup.sh'' ''/opt/agent''] @ [RemoveAll ''/opt/agent'']
   \<and> fst (doUninstall (sim_os script_fail) rm_cfg (start scripted_world)) \<noteq> Done
   \<and> list_all (\<lambda>e. \<not> isRemoveAll e)
        (issued (start scripted_world) (snd (doUninstall (sim_os script_fail) rm_cfg (start scripted_world))))"
proof -
  have a: "UninstallScript user_cfg = []"
    and b: "doUninstall (sim_os script_noop) user_cfg (start installed_world) =
       (Done,
        \<lparr>trace = [Systemctl [''stop'', ''agent@*''], Systemctl [''disable'', ''agent@*''],
                  Remove ''/usr/lib/systemd/system/agent@.service'', Systemctl [''daemon-reload'']]
                 @ [RemoveAll ''/opt/agent''],
         world = installed_world\<lparr>sim_files := [(''/src/agent'', ''ELF'')],
                   sim_dirs := [''/tmp'', ''/opt'', ''/src''], sim_service := Stopping 0\<rparr>\<rparr>)"
    and c: "UninstallScript rm_cfg \<noteq> []"
    and d: "fst (doUninstall (sim_os script_noop) rm_cfg (start scripted_world)) = Done"
    and e: "issued (start scripted_world) (snd (doUninstall (sim_os script_noop) rm_cfg (start scripted_world)))
       = [Systemctl [''stop'', ''agent@*''], Systemctl [''disable'', ''agent@*''],
          Remove ''/usr/lib/systemd/system/agent@.service'', Systemctl [''daemon-reload''],
          CpCopy ''.qp/cleanup.sh'' ''/opt/agent/cleanup.sh'',
          Bash ''/opt/agent/cleanup.sh'' ''/opt/agent''] @ [RemoveAll ''/opt/agent'']"
    and f: "fst (doUninstall (sim_os script_fail) rm_cfg (start scripted_world)) \<noteq> Done"
    by code_simp+
  from uninstall_removal[of user_cfg "sim_os script_noop" "start installed_world"] a b c d e f
    uninstall_removal[of rm_cfg "sim_os script_fail" "start scripted_world"]
  show ?thesis by simp
qed

section \<open>The order of an install\<close>

lemma issued_self: "issued s s = []"
  by (simp add: issued_def)

text \<open>
  Claim C6. The events an install issues fall into four consecutive segments: first
  the queries, the stop and the waiting; then the changes to files and the install
  script; then the writing of the unit, the reload, enable and start; last the removal
  of staging directories. So nothing is stopped after a file has changed, and nothing
  is started before the last file change and the script. When a service-managed
  install changes any file, the stop step has completed, in a state where the service
  manager has just answered that the unit is not active. When the start segment is
  reached, every install file has been copied and a configured install script has run;
  a completed service-managed install has written the unit, reloaded, enabled and
  started, in that order.
\<close>

theorem install_sequencing:
  "\<exists>e0 e1 e2 e3.
      issued s (snd (doInstall fuel os cfg s)) = e0 @ e1 @ e2 @ e3
    \<and> list_all (stopEvent (UnitNameWildcard (UnitFromConfig cfg))) e0
    \<and> list_all fileEvent e1
    \<and> list_all (startEvent cfg) e2
    \<and> list_all isRemoveAll e3
    \<and> (e1 \<noteq> [] \<and> Systemd cfg \<longrightarrow>
         (\<exists>s0. systemctl os [''is-active'', ''--quiet'', UnitNameWildcard (UnitFromConfig cfg)] s0
                 = (False, snd (stopActive fuel os cfg s))))
    \<and> (e2 \<noteq> [] \<or> fst (doInstall fuel os cfg s) = Done \<longrightarrow>
         (\<forall>entry \<in> set (InstallFiles cfg). \<exists>b src base dst.
             entrySource b entry = Inr (src, base)
             \<and> copyDest src base (Join [InstallPath, AppName cfg]) = Some dst
             \<and> CpCopy src dst \<in> set e1)
         \<and> (InstallScript cfg \<noteq> [] \<longrightarrow>
              Bash (Join [Join [InstallPath, AppName cfg], Base (InstallScript cfg)])
                   (Join [InstallPath, AppName cfg]) \<in> set e1))
    \<and> (fst (doInstall fuel os cfg s) = Done \<and> Systemd cfg \<longrightarrow>
         e2 = [WriteFile (UnitPath (UnitFromConfig cfg)) (GenerateFile (UnitFromConfig cfg)),
               Systemctl [''daemon-reload''],
               Systemctl [''enable'', ''--now'', UnitNameWildcard (UnitFromConfig cfg)],
               Systemctl [''start'', UnitNameWildcard (UnitFromConfig cfg)]])"
proof -
  let ?W = "UnitNameWildcard (UnitFromConfig cfg)"
  let ?d = "Join [InstallPath, AppName cfg]"
  let ?A = "stopActive fuel os cfg"
  let ?B = "createInstallDir os ?d"
  let ?C = "\<lambda>s. installEntries os ?d (fst (findTempBuildDir os (AppName cfg) (world s))) (InstallFiles cfg) s"
  let ?D = "installScriptStep os cfg ?d"
  let ?E = "startService os cfg"
  let ?F = "cleanupStaging os cfg"
  let ?s1 = "snd (?A s)"
  let ?s2 = "snd (?B ?s1)"
  let ?s3 = "snd (?C ?s2)"
  let ?s4 = "snd (?D ?s3)"
  let ?s5 = "snd (?E ?s4)"
  let ?s6 = "snd (?F ?s5)"
  let ?copied = "\<lambda>e1. \<forall>entry \<in> set (InstallFiles cfg). \<exists>b src base dst.
             entrySource b entry = Inr (src, base) \<and> copyDest src base ?d = Some dst
             \<and> CpCopy src dst \<in> set e1"
  let ?ran = "\<lambda>e1. InstallScript cfg \<noteq> [] \<longrightarrow> Bash (Join [?d, Base (InstallScript cfg)]) ?d \<in> set e1"
  let ?unit = "[WriteFile (UnitPath (UnitFromConfig cfg)) (GenerateFile (UnitFromConfig cfg)),
               Systemctl [''daemon-reload''], Systemctl [''enable'', ''--now'', ?W],
               Systemctl [''start'', ?W]]"
  have run: "doInstall fuel os cfg s =
     (if fst (?A s) \<noteq> Done then ?A s
      else if fst (?B ?s1) \<noteq> Done then ?B ?s1
      else if fst (?C ?s2) \<noteq> Done then ?C ?s2
      else if fst (?D ?s3) \<noteq> Done then ?D ?s3
      else if fst (?E ?s4) \<noteq> Done then ?E ?s4
      else ?F ?s5)"
    by (simp add: doInstall_def Let_def andThen_eq)
  have x1: "extends (stopEvent ?W) s ?s1"
    by (rule stopActive_ext[OF extends_refl])
  have x2: "extends fileEvent ?s1 ?s2"
    by (rule createInstallDir_ext[OF extends_refl])
  have x3: "extends fileEvent ?s2 ?s3"
    by (rule installEntries_ext[OF extends_refl])
  have x4: "extends fileEvent ?s3 ?s4"
    by (rule installScriptStep_ext[OF extends_refl])
  have x5: "extends (startEvent cfg) ?s4 ?s5"
    by (rule startService_ext[OF extends_refl])
  have x6: "extends isRemoveAll ?s5 ?s6"
    by (rule cleanupStaging_ext[OF extends_refl])
  note i1 = extends_issued[OF x1] and i2 = extends_issued[OF x2] and i3 = extends_issued[OF x3]
    and i4 = extends_issued[OF x4] and i5 = extends_issued[OF x5] and i6 = extends_issued[OF x6]
  let ?e0 = "issued s ?s1"
  have t2: "issued s ?s2 = ?e0 @ issued ?s1 ?s2 @ [] @ []"
    using i1 i2 by (intro issued_append) simp
  have t3: "issued s ?s3 = ?e0 @ (issued ?s1 ?s2 @ issued ?s2 ?s3) @ [] @ []"
    using i1 i2 i3 by (intro issued_append) simp
  have t4: "issued s ?s4 = ?e0 @ (issued ?s1 ?s2 @ issued ?s2 ?s3 @ issued ?s3 ?s4) @ [] @ []"
    using i1 i2 i3 i4 by (intro issued_append) simp
  have t5: "issued s ?s5 = ?e0 @ (issued ?s1 ?s2 @ issued ?s2 ?s3 @ issued ?s3 ?s4) @ issued ?s4 ?s5 @ []"
    using i1 i2 i3 i4 i5 by (intro issued_append) simp
  have t6: "issued s ?s6 =
      ?e0 @ (issued ?s1 ?s2 @ issued ?s2 ?s3 @ issued ?s3 ?s4) @ issued ?s4 ?s5 @ issued ?s5 ?s6"
    using i1 i2 i3 i4 i5 i6 by (intro issued_append) simp
  have stopped: "\<exists>s0. systemctl os [''is-active'', ''--quiet'', ?W] s0 = (False, ?s1)"
    if "fst (?A s) = Done" "Systemd cfg"
    using that by (rule stopActive_Done)
  have copied: "?copied (issued ?s1 ?s2 @ issued ?s2 ?s3 @ issued ?s3 ?s4)" if "fst (?C ?s2) = Done"
    using installEntries_copied[OF that] by (metis UnCI set_append)
  have ran: "?ran (issued ?s1 ?s2 @ issued ?s2 ?s3 @ issued ?s3 ?s4)" if "fst (?D ?s3) = Done"
    using installScriptStep_ran[OF that] by simp
  consider (a) "fst (?A s) \<noteq> Done"
    | (b) "fst (?A s) = Done" "fst (?B ?s1) \<noteq> Done"
    | (c) "fst (?A s) = Done" "fst (?B ?s1) = Done" "fst (?C ?s2) \<noteq> Done"
    | (d) "fst (?A s) = Done" "fst (?B ?s1) = Done" "fst (?C ?s2) = Done" "fst (?D ?s3) \<noteq> Done"
    | (e) "fst (?A s) = Done" "fst (?B ?s1) = Done" "fst (?C ?s2) = Done" "fst (?D ?s3) = Done"
          "fst (?E ?s4) \<noteq> Done"
    | (f) "fst (?A s) = Done" "fst (?B ?s1) = Done" "fst (?C ?s2) = Done" "fst (?D ?s3) = Done"
          "fst (?E ?s4) = Done"
    by blast
  then show ?thesis
  proof cases
    case a
    then have fin: "doInstall fuel os cfg s = ?A s"
      by (simp add: run)
    show ?thesis
      apply (rule exI[of _ ?e0], rule exI[of _ "[]"], rule exI[of _ "[]"], rule exI[of _ "[]"])
      using a i1 by (simp add: fin)
  next
    case b
    then have fin: "doInstall fuel os cfg s = ?B ?s1"
      by (simp add: run)
    show ?thesis
      apply (rule exI[of _ ?e0], rule exI[of _ "issued ?s1 ?s2"], rule exI[of _ "[]"], rule exI[of _ "[]"])
      using b i1 i2 t2 stopped by (simp add: fin)
  next
    case c
    then have fin: "doInstall fuel os cfg s = ?C ?s2"
      by (simp add: run)
    show ?thesis
      apply (rule exI[of _ ?e0], rule exI[of _ "issued ?s1 ?s2 @ issued ?s2 ?s3"],
             rule exI[of _ "[]"], rule exI[of _ "[]"])
      using c i1 i2 i3 t3 stopped by (simp add: fin)
  next
    case d
    then have fin: "doInstall fuel os cfg s = ?D ?s3"
      by (simp add: run)
    show ?thesis
      apply (rule exI[of _ ?e0], rule exI[of _ "issued ?s1 ?s2 @ issued ?s2 ?s3 @ issued ?s3 ?s4"],
             rule exI[of _ "[]"], rule exI[of _ "[]"])
      using d i1 i2 i3 i4 t4 stopped by (simp add: fin)
  next
    case e
    then have fin: "doInstall fuel os cfg s = ?E ?s4"
      by (simp add: run)
    show ?thesis
      apply (rule exI[of _ ?e0], rule exI[of _ "issued ?s1 ?s2 @ issued ?s2 ?s3 @ issued ?s3 ?s4"],
             rule exI[of _ "issued ?s4 ?s5"], rule exI[of _ "[]"])
      using e i1 i2 i3 i4 i5 t5 stopped copied[OF e(3)] ran[OF e(4)] by (simp add: fin)
  next
    case f
    then have fin: "doInstall fuel os cfg s = ?F ?s5"
      by (simp add: run)
    have u: "issued ?s4 ?s5 = ?unit" if "Systemd cfg"
      using startService_Done[OF f(5) that] .
    show ?thesis
      apply (rule exI[of _ ?e0], rule exI[of _ "issued ?s1 ?s2 @ issued ?s2 ?s3 @ issued ?s3 ?s4"],
             rule exI[of _ "issued ?s4 ?s5"], rule exI[of _ "issued ?s5 ?s6"])
      using f i1 i2 i3 i4 i5 i6 t6 stopped copied[OF f(3)] ran[OF f(4)] u
      by (simp add: fin cleanupStaging_Done)
  qed
qed

theorem install_sequencing_witness:
  "snd (doBuild (sim_os script_log) demo_cfg (start demo_world))
     = \<lparr>trace = [MkdirTemp ''/tmp'' ''qp_build_demo_'', MkdirAll ''/tmp/qp_build_demo_111'',
                 CpCopy ''out.bin'' ''/tmp/qp_build_demo_111/out.bin''],
        world = staged_world\<rparr>
   \<and> Systemd demo_cfg \<and> InstallScript demo_cfg \<noteq> []
   \<and> fst (doInstall 2 (sim_os script_log) demo_cfg (start staged_world)) = Done
   \<and> issued (start staged_world) (snd (doInstall 2 (sim_os script_log) demo_cfg (start staged_world))) =
       [Systemctl [''is-active'', ''--quiet'', ''demo''], Systemctl [''stop'', ''demo''],
        Systemctl [''is-active'', ''--quiet'', ''demo''], Sleep,
        Systemctl [''is-active'', ''--quiet'', ''demo'']]
       @ [MkdirAll ''/opt/demo'', MkdirAll ''/opt/demo/bin'', CpCopy ''bin/demo'' ''/opt/demo/bin/demo'',
          MkdirAll ''/opt/demo'', CpCopy ''/tmp/qp_build_demo_111/out.bin'' ''/opt/demo/out.bin'',
          CpCopy ''.qp/post.sh'' ''/opt/demo/post.sh'', Bash ''/opt/demo/post.sh'' ''/opt/demo'']
       @ [WriteFile ''/usr/lib/systemd/system/demo.service'' (GenerateFile (UnitFromConfig demo_cfg)),
          Systemctl [''daemon-reload''], Systemctl [''enable'', ''--now'', ''demo''],
          Systemctl [''start'', ''demo'']]
       @ [RemoveAll ''/tmp/qp_build_demo_111'']
   \<and> fst (doInstall 1 (sim_os script_log) demo_cfg (start staged_world)) = Polling
   \<and> (\<exists>e0 e1 e2 e3.
        issued (start staged_world) (snd (doInstall 2 (sim_os script_log) demo_cfg (start staged_world)))
          = e0 @ e1 @ e2 @ e3
        \<and> list_all (stopEvent ''demo'') e0 \<and> list_all fileEvent e1
        \<and> list_all (startEvent demo_cfg) e2 \<and> list_all isRemoveAll e3
        \<and> e2 = [WriteFile ''/usr/lib/systemd/system/demo.service'' (GenerateFile (UnitFromConfig demo_cfg)),
          Systemctl [''daemon-reload''], Systemctl [''enable'', ''--now'', ''demo''],
          Systemctl [''start'', ''demo'']])"
proof -
  have a: "snd (doBuild (sim_os script_log) demo_cfg (start demo_world))
     = \<lparr>trace = [MkdirTemp ''/tmp'' ''qp_build_demo_'', MkdirAll ''/tmp/qp_build_demo_111'',
                 CpCopy ''out.bin'' ''/tmp/qp_build_demo_111/out.bin''],
        world = staged_world\<rparr>"
    and b: "Systemd demo_cfg" and c: "InstallScript demo_cfg \<noteq> []"
    and d: "fst (doInstall 2 (sim_os script_log) demo_cfg (start staged_world)) = Done"
    and e: "issued (start staged_world) (snd (doInstall 2 (sim_os script_log) demo_cfg (start staged_world))) =
       [Systemctl [''is-active'', ''--quiet'', ''demo''], Systemctl [''stop'', ''demo''],
        Systemctl [''is-active'', ''--quiet'', ''demo''], Sleep,
        Systemctl [''is-active'', ''--quiet'', ''demo'']]
       @ [MkdirAll ''/opt/demo'', MkdirAll ''/opt/demo/bin'', CpCopy ''bin/demo'' ''/opt/demo/bin/demo'',
          MkdirAll ''/opt/demo'', CpCopy ''/tmp/qp_build_demo_111/out.bin'' ''/opt/demo/out.bin'',
          CpCopy ''.qp/post.sh'' ''/opt/demo/post.sh'', Bash ''/opt/demo/post.sh'' ''/opt/demo'']
       @ [WriteFile ''/usr/lib/systemd/system/demo.service'' (GenerateFile (UnitFromConfig demo_cfg)),
          Systemctl [''daemon-reload''], Systemctl [''enable'', ''--now'', ''demo''],
          Systemctl [''start'', ''demo'']]
       @ [RemoveAll ''/tmp/qp_build_demo_111'']"
    and f: "fst (doInstall 1 (sim_os script_log) demo_cfg (start staged_world)) = Polling"
    and w: "UnitNameWildcard (UnitFromConfig demo_cfg) = ''demo''"
    by code_simp+
  from install_sequencing[of "start staged_world" 2 "sim_os script_log" demo_cfg] b d w
  obtain e0 e1 e2 e3 where
    "issued (start staged_world) (snd (doInstall 2 (sim_os script_log) demo_cfg (start staged_world)))
          = e0 @ e1 @ e2 @ e3"
    "list_all (stopEvent ''demo'') e0" "list_all fileEvent e1"
    "list_all (startEvent demo_cfg) e2" "list_all isRemoveAll e3"
    "e2 = [WriteFile ''/usr/lib/systemd/system/demo.service'' (GenerateFile (UnitFromConfig demo_cfg)),
          Systemctl [''daemon-reload''], Systemctl [''enable'', ''--now'', ''demo''],
          Systemctl [''start'', ''demo'']]"
    by (auto simp: UnitPath_def UnitName_def UnitFromConfig_def demo_cfg_def)
  then have "\<exists>e0 e1 e2 e3.
        issued (start staged_world) (snd (doInstall 2 (sim_os script_log) demo_cfg (start staged_world)))
          = e0 @ e1 @ e2 @ e3
        \<and> list_all (stopEvent ''demo'') e0 \<and> list_all fileEvent e1
        \<and> list_all (startEvent demo_cfg) e2 \<and> list_all isRemoveAll e3
        \<and> e2 = [WriteFile ''/usr/lib/systemd/system/demo.service'' (GenerateFile (UnitFromConfig demo_cfg)),
          Systemctl [''daemon-reload''], Systemctl [''enable'', ''--now'', ''demo''],
          Systemctl [''start'', ''demo'']]"
    by blast
  with a b c d e f show ?thesis
    by blast
qed

section \<open>Where install places a file\<close>








section \<open>Installing twice\<close>

text \<open>
  Claim C9, as stated, fails. With the install script that appends a line to
  \<open>install.log\<close>, an install from \<open>demo_world\<close> completes in \<open>logged_world\<close>, where the
  config and the sources are as before; a second install completes too, and the
  install root differs: the log has a second line. With a script that does nothing
  and a staging directory left behind by an earlier run, the first install takes the
  old \<open>out.bin\<close> from it and the second takes the one just built.
\<close>

theorem install_twice_counterexample:
  "fst (main 2 (sim_os script_log) [''qp'', ''install''] (start demo_world)) = Done
   \<and> world (snd (main 2 (sim_os script_log) [''qp'', ''install''] (start demo_world))) = logged_world
   \<and> files_in ''/src'' logged_world = files_in ''/src'' demo_world
   \<and> sim_config logged_world = sim_config demo_world
   \<and> fst (main 2 (sim_os script_log) [''qp'', ''install''] (start logged_world)) = Done
   \<and> files_in ''/opt/demo'' logged_world
       = [(''/opt/demo/bin/demo'', ''ELF''), (''/opt/demo/out.bin'', ''OUT''),
          (''/opt/demo/post.sh'', ''#!''), (''/opt/demo/install.log'', ''installed'' @ [nl])]
   \<and> files_in ''/opt/demo''
        (world (snd (main 2 (sim_os script_log) [''qp'', ''install''] (start logged_world))))
       = [(''/opt/demo/bin/demo'', ''ELF''), (''/opt/demo/out.bin'', ''OUT''),
          (''/opt/demo/post.sh'', ''#!''),
          (''/opt/demo/install.log'', ''installed'' @ [nl] @ ''installed'' @ [nl])]
   \<and> fst (main 2 (sim_os script_noop) [''qp'', ''install''] (start stale_world)) = Done
   \<and> world (snd (main 2 (sim_os script_noop) [''qp'', ''install''] (start stale_world))) = outdated_world
   \<and> files_in ''/src'' outdated_world = files_in ''/src'' stale_world
   \<and> fst (main 2 (sim_os script_noop) [''qp'', ''install''] (start outdated_world)) = Done
   \<and> files_in ''/opt/demo'' outdated_world
       = [(''/opt/demo/bin/demo'', ''ELF''), (''/opt/demo/out.bin'', ''OLD''),
          (''/opt/demo/post.sh'', ''#!'')]
   \<and> files_in ''/opt/demo''
        (world (snd (main 2 (sim_os script_noop) [''qp'', ''install''] (start outdated_world))))
       = [(''/opt/demo/bin/demo'', ''ELF''), (''/opt/demo/out.bin'', ''OUT''),
          (''/opt/demo/post.sh'', ''#!'')]"
  by code_simp

text \<open>
  Claim C9, amended. Install is repeatable in the operations it issues on the install
  root, not in the bytes it leaves there. A completed run over the install files has
  issued, for each entry in order, the creation of the destination's directory and the
  copy to the destination; these operations depend only on the install root, the
  staging directory and the entries, and for entries of provenance \<open>cwd\<close> not on the
  staging directory either, so a second run overwrites the files of the first in
  place. An install script already present at its destination is not copied again,
  and it is run again. A completed install has issued, between stopping and starting
  the service: the creation of the install root, the operations of the entries, at
  most one copy of the script, and the run of the script when one is configured.
\<close>

theorem install_repeatable:
  "(fst (installEntries os d b entries s) = Done \<longrightarrow>
      issued s (snd (installEntries os d b entries s)) = concat (map (entryOps d b) entries))
   \<and> ((\<forall>entry \<in> set entries. From entry = ''cwd'') \<longrightarrow>
        map (entryOps d b) entries = map (entryOps d b') entries)
   \<and> (InstallScript cfg \<noteq> [] \<and> exists os (Join [d, Base (InstallScript cfg)]) s
        \<and> fst (installScriptStep os cfg d s) = Done \<longrightarrow>
        issued s (snd (installScriptStep os cfg d s)) = [Bash (Join [d, Base (InstallScript cfg)]) d])
   \<and> (fst (doInstall fuel os cfg s) = Done \<longrightarrow>
        (\<exists>e0 bd staged e2 e3.
           issued s (snd (doInstall fuel os cfg s)) =
             e0 @ (MkdirAll (Join [InstallPath, AppName cfg])
                   # concat (map (entryOps (Join [InstallPath, AppName cfg]) bd) (InstallFiles cfg))
                   @ staged
                   @ (if InstallScript cfg = [] then []
                      else [Bash (Join [Join [InstallPath, AppName cfg], Base (InstallScript cfg)])
                              (Join [InstallPath, AppName cfg])]))
                @ e2 @ e3
           \<and> list_all (stopEvent (UnitNameWildcard (UnitFromConfig cfg))) e0
           \<and> (staged = [] \<or> staged = [CpCopy (GetInstallScript cfg)
                  (Join [Join [InstallPath, AppName cfg], Base (InstallScript cfg)])])
           \<and> list_all (startEvent cfg) e2 \<and> list_all isRemoveAll e3))"
proof -
  have 1: "issued s (snd (installEntries os d b entries s)) = concat (map (entryOps d b) entries)"
    if "fst (installEntries os d b entries s) = Done"
    using that by (rule installEntries_ops)
  have 2: "map (entryOps d b) entries = map (entryOps d b') entries"
    if "\<forall>entry \<in> set entries. From entry = ''cwd''"
    using that by (auto intro: entryOps_cwd)
  have 3: "issued s (snd (installScriptStep os cfg d s)) = [Bash (Join [d, Base (InstallScript cfg)]) d]"
    if "InstallScript cfg \<noteq> [] \<and> exists os (Join [d, Base (InstallScript cfg)]) s
        \<and> fst (installScriptStep os cfg d s) = Done"
    using that installScriptStep_issued[where os = os and cfg = cfg and d = d and s = s] by auto
  have 4: "\<exists>e0 bd staged e2 e3.
           issued s (snd (doInstall fuel os cfg s)) =
             e0 @ (MkdirAll (Join [InstallPath, AppName cfg])
                   # concat (map (entryOps (Join [InstallPath, AppName cfg]) bd) (InstallFiles cfg))
                   @ staged
                   @ (if InstallScript cfg = [] then []
                      else [Bash (Join [Join [InstallPath, AppName cfg], Base (InstallScript cfg)])
                              (Join [InstallPath, AppName cfg])]))
                @ e2 @ e3
           \<and> list_all (stopEvent (UnitNameWildcard (UnitFromConfig cfg))) e0
           \<and> (staged = [] \<or> staged = [CpCopy (GetInstallScript cfg)
                  (Join [Join [InstallPath, AppName cfg], Base (InstallScript cfg)])])
           \<and> list_all (startEvent cfg) e2 \<and> list_all isRemoveAll e3"
    if dn: "fst (doInstall fuel os cfg s) = Done"
  proof -
    define dir where "dir = Join [InstallPath, AppName cfg]"
    from doInstall_completed[OF dn] obtain s1 s2 s3 s4 s5 s6 where
      a: "stopActive fuel os cfg s = (Done, s1)"
      and b: "createInstallDir os dir s1 = (Done, s2)"
      and c: "installEntries os dir (fst (findTempBuildDir os (AppName cfg) (world s2)))
                (InstallFiles cfg) s2 = (Done, s3)"
      and d: "installScriptStep os cfg dir s3 = (Done, s4)"
      and e: "startService os cfg s4 = (Done, s5)"
      and f: "cleanupStaging os cfg s5 = (Done, s6)"
      and fin: "snd (doInstall fuel os cfg s) = s6"
      and iss: "issued s s6 = issued s s1 @ (issued s1 s2 @ issued s2 s3 @ issued s3 s4)
                  @ issued s4 s5 @ issued s5 s6"
      unfolding dir_def by blast
    define bd where "bd = fst (findTempBuildDir os (AppName cfg) (world s2))"
    have i1: "list_all (stopEvent (UnitNameWildcard (UnitFromConfig cfg))) (issued s s1)"
      using extends_issued[OF stopActive_ext[OF extends_refl, where fuel = fuel and os = os and cfg = cfg and s = s]] a by simp
    have i2: "issued s1 s2 = [MkdirAll dir]"
      using createInstallDir_issued[where s = s1 and os = os and d = dir] b by simp
    have i3: "issued s2 s3 = concat (map (entryOps dir bd) (InstallFiles cfg))"
      using installEntries_ops[where os = os and d = dir and b = bd and entries = "InstallFiles cfg" and s = s2] c by (simp add: bd_def)
    from installScriptStep_issued[where os = os and cfg = cfg and d = dir and s = s3] d obtain staged where
      st: "staged = [] \<or> staged = [CpCopy (GetInstallScript cfg) (Join [dir, Base (InstallScript cfg)])]"
      and i4: "issued s3 s4 = staged @ (if InstallScript cfg = [] then []
                 else [Bash (Join [dir, Base (InstallScript cfg)]) dir])"
      by auto
    have i5: "list_all (startEvent cfg) (issued s4 s5)"
      using extends_issued[OF startService_ext[OF extends_refl, where os = os and cfg = cfg and s = s4]] e by simp
    have i6: "list_all isRemoveAll (issued s5 s6)"
      using extends_issued[OF cleanupStaging_ext[OF extends_refl, where os = os and cfg = cfg and s = s5]] f by simp
    have "issued s (snd (doInstall fuel os cfg s)) =
        issued s s1 @ (MkdirAll dir # concat (map (entryOps dir bd) (InstallFiles cfg)) @ staged
           @ (if InstallScript cfg = [] then [] else [Bash (Join [dir, Base (InstallScript cfg)]) dir]))
        @ issued s4 s5 @ issued s5 s6"
      unfolding fin iss i2 i3 i4 by simp
    with i1 st i5 i6 show ?thesis
      unfolding dir_def by blast
  qed
  from 1 2 3 4 show ?thesis by blast
qed

theorem install_repeatable_witness:
  "fst (doInstall 2 (sim_os script_log) demo_cfg (start staged_world)) = Done
   \<and> InstallScript demo_cfg \<noteq> []
   \<and> issued (start staged_world) (snd (doInstall 2 (sim_os script_log) demo_cfg (start staged_world))) =
       [Systemctl [''is-active'', ''--quiet'', ''demo''], Systemctl [''stop'', ''demo''],
        Systemctl [''is-active'', ''--quiet'', ''demo''], Sleep,
        Systemctl [''is-active'', ''--quiet'', ''demo'']]
       @ (MkdirAll ''/opt/demo''
          # concat (map (entryOps ''/opt/demo'' ''/tmp/qp_build_demo_111'') (InstallFiles demo_cfg))
          @ [CpCopy ''.qp/post.sh'' ''/opt/demo/post.sh'']
          @ [Bash ''/opt/demo/post.sh'' ''/opt/demo''])
       @ [WriteFile ''/usr/lib/systemd/system/demo.service'' (GenerateFile (UnitFromConfig demo_cfg)),
          Systemctl [''daemon-reload''], Systemctl [''enable'', ''--now'', ''demo''],
          Systemctl [''start'', ''demo'']]
       @ [RemoveAll ''/tmp/qp_build_demo_111'']
   \<and> concat (map (entryOps ''/opt/demo'' ''/tmp/qp_build_demo_111'') (InstallFiles demo_cfg)) =
       [MkdirAll ''/opt/demo/bin'', CpCopy ''bin/demo'' ''/opt/demo/bin/demo'',
        MkdirAll ''/opt/demo'', CpCopy ''/tmp/qp_build_demo_111/out.bin'' ''/opt/demo/out.bin'']
   \<and> exists (sim_os script_log) (Join [''/opt/demo'', Base (InstallScript demo_cfg)]) (start logged_world)
   \<and> fst (installScriptStep (sim_os script_log) demo_cfg ''/opt/demo'' (start logged_world)) = Done
   \<and> issued (start logged_world)
        (snd (installScriptStep (sim_os script_log) demo_cfg ''/opt/demo'' (start logged_world)))
       = [Bash ''/opt/demo/post.sh'' ''/opt/demo'']
   \<and> From \<lparr>File = ''bin/tool'', From = ''cwd''\<rparr> = ''cwd''
   \<and> map (entryOps ''/opt/demo'' ''/tmp/a'') [\<lparr>File = ''bin/tool'', From = ''cwd''\<rparr>]
       = map (entryOps ''/opt/demo'' ''/tmp/b'') [\<lparr>File = ''bin/tool'', From = ''cwd''\<rparr>]"
proof -
  have a: "fst (doInstall 2 (sim_os script_log) demo_cfg (start staged_world)) = Done"
    and b: "InstallScript demo_cfg \<noteq> []"
    and c: "issued (start staged_world) (snd (doInstall 2 (sim_os script_log) demo_cfg (start staged_world))) =
       [Systemctl [''is-active'', ''--quiet'', ''demo''], Systemctl [''stop'', ''demo''],
        Systemctl [''is-active'', ''--quiet'', ''demo''], Sleep,
        Systemctl [''is-active'', ''--quiet'', ''demo'']]
       @ (MkdirAll ''/opt/demo''
          # concat (map (entryOps ''/opt/demo'' ''/tmp/qp_build_demo_111'') (InstallFiles demo_cfg))
          @ [CpCopy ''.qp/post.sh'' ''/opt/demo/post.sh'']
          @ [Bash ''/opt/demo/post.sh'' ''/opt/demo''])
       @ [WriteFile ''/usr/lib/systemd/system/demo.service'' (GenerateFile (UnitFromConfig demo_cfg)),
          Systemctl [''daemon-reload''], Systemctl [''enable'', ''--now'', ''demo''],
          Systemctl [''start'', ''demo'']]
       @ [RemoveAll ''/tmp/qp_build_demo_111'']"
    and d: "concat (map (entryOps ''/opt/demo'' ''/tmp/qp_build_demo_111'') (InstallFiles demo_cfg)) =
       [MkdirAll ''/opt/demo/bin'', CpCopy ''bin/demo'' ''/opt/demo/bin/demo'',
        MkdirAll ''/opt/demo'', CpCopy ''/tmp/qp_build_demo_111/out.bin'' ''/opt/demo/out.bin'']"
    and e: "exists (sim_os script_log) (Join [''/opt/demo'', Base (InstallScript demo_cfg)]) (start logged_world)"
    and f: "fst (installScriptStep (sim_os script_log) demo_cfg ''/opt/demo'' (start logged_world)) = Done"
    and g: "Join [''/opt/demo'', Base (InstallScript demo_cfg)] = ''/opt/demo/post.sh''"
    by code_simp+
  from install_repeatable[where os = "sim_os script_log" and cfg = demo_cfg and d = "''/opt/demo''"
      and s = "start logged_world" and b = "''/tmp/a''" and b' = "''/tmp/b''"
      and entries = "[\<lparr>File = ''bin/tool'', From = ''cwd''\<rparr>]" and fuel = 2]
    a b c d e f g
  show ?thesis by simp
qed

end
